theory Spec2Isabelle
  imports Complex_Main "HOL-Library.Multiset"
begin

section \<open>Values of the Go runtime and standard library\<close>

subsection \<open>float64\<close>

text \<open>
  Metric values are Go \<^verbatim>\<open>float64\<close>. The collectors only build them from integers, from
  \<^verbatim>\<open>math.Inf\<close> and from a field the JSON decoder filled, so a finite value is carried as
  the real number it denotes, next to the two infinities.
\<close>

datatype float64 = Finite real | PosInf | NegInf

text \<open>\<^verbatim>\<open>math.Inf(sign)\<close>: positive infinity if \<^verbatim>\<open>sign >= 0\<close>, negative infinity otherwise.\<close>

definition math_Inf :: "int \<Rightarrow> float64" where
  "math_Inf sign = (if 0 \<le> sign then PosInf else NegInf)"

text \<open>Number of binary digits of a natural number.\<close>

fun bit_length :: "nat \<Rightarrow> nat" where
  "bit_length n = (if n = 0 then 0 else Suc (bit_length (n div 2)))"

declare bit_length.simps [simp del]

text \<open>
  The conversion \<^verbatim>\<open>float64(n)\<close> of a Go \<^verbatim>\<open>int\<close> (64 bits on every architecture the
  Makefile builds for: amd64, arm64, ppc64le, s390x). A magnitude of at most \<open>2^53\<close> is
  exact; a larger one is rounded to 53 significant bits, ties to even.
\<close>

definition float64_of_int :: "int \<Rightarrow> float64" where
  "float64_of_int n =
     (let a = nat \<bar>n\<bar> in
      if a \<le> 2 ^ 53 then Finite (of_int n)
      else
        let sh = bit_length a - 53;
            q = a div 2 ^ sh;
            r = a mod 2 ^ sh;
            h = 2 ^ (sh - 1);
            q' = (if h < r \<or> (r = h \<and> odd q) then q + 1 else q)
        in Finite (of_int (sgn n * int (q' * 2 ^ sh))))"

subsection \<open>Strings\<close>

text \<open>
  A Go string is a byte sequence; \<^typ>\<open>string\<close> is a list of bytes too.

  \<^verbatim>\<open>strings.ToLower\<close>, on ASCII input: the letters \<^verbatim>\<open>A\<close> to \<^verbatim>\<open>Z\<close> are replaced
  by \<^verbatim>\<open>a\<close> to \<^verbatim>\<open>z\<close>, every other byte is kept. (Go also maps upper-case letters
  outside ASCII; bytes from 128 on are kept as they are here.)
\<close>

definition isUpper :: "char \<Rightarrow> bool" where
  "isUpper c = (65 \<le> (of_char c :: nat) \<and> (of_char c :: nat) \<le> 90)"

definition toLowerByte :: "char \<Rightarrow> char" where
  "toLowerByte c = (if isUpper c then char_of ((of_char c :: nat) + 32) else c)"

definition ToLower :: "string \<Rightarrow> string" where
  "ToLower s = map toLowerByte s"

text \<open>\<^verbatim>\<open>strconv.FormatBool\<close>.\<close>

definition FormatBool :: "bool \<Rightarrow> string" where
  "FormatBool b = (if b then ''true'' else ''false'')"

text \<open>\<^verbatim>\<open>strconv.Itoa\<close>: the decimal digits, after a minus sign for a negative number.\<close>

definition digitByte :: "nat \<Rightarrow> char" where
  "digitByte d = char_of (48 + d)"

fun natDigits :: "nat \<Rightarrow> string" where
  "natDigits n = (if n < 10 then [digitByte n] else natDigits (n div 10) @ [digitByte (n mod 10)])"

declare natDigits.simps [simp del]

definition Itoa :: "int \<Rightarrow> string" where
  "Itoa i = (if i < 0 then CHR ''-'' # natDigits (nat (- i)) else natDigits (nat i))"

text \<open>
  \<^verbatim>\<open>strings.Split(s, sep)\<close> for a non-empty separator: the pieces of \<open>s\<close> between the
  non-overlapping occurrences of \<open>sep\<close>, found from the left; one piece more than there
  are occurrences, so never an empty list. (For the empty separator Go cuts after each
  UTF-8 sequence; the collectors never pass one, and the model cuts after each byte.)
\<close>

function splitFrom :: "string \<Rightarrow> string \<Rightarrow> string \<Rightarrow> string list" where
  "splitFrom sep cur [] = [rev cur]"
| "splitFrom sep cur (c # cs) =
     (if sep \<noteq> [] \<and> take (length sep) (c # cs) = sep
      then rev cur # splitFrom sep [] (drop (length sep) (c # cs))
      else splitFrom sep (c # cur) cs)"
  by pat_completeness auto
termination
  by (relation "measure (\<lambda>(sep, cur, s). length s)") auto

definition Split :: "string \<Rightarrow> string \<Rightarrow> string list" where
  "Split s sep = (if sep = [] then map (\<lambda>c. [c]) s else splitFrom sep [] s)"

text \<open>
  \<^verbatim>\<open>strconv.Atoi(s)\<close>, which the documentation defines as \<^verbatim>\<open>ParseInt(s, 10, 0)\<close>:
  an optional sign, then \<^verbatim>\<open>ParseUint\<close> on the rest. \<^verbatim>\<open>ParseUint\<close> reads the bytes
  from the left into a 64-bit accumulator. A byte that is not a decimal digit ends it
  with a syntax error and the value 0; an accumulator that would pass \<open>2^64 - 1\<close> ends
  it with a range error and the value \<open>2^64 - 1\<close>, whichever comes first.
  \<^verbatim>\<open>ParseInt\<close> passes a syntax error on with the value 0 and turns a magnitude outside
  the signed 64-bit range into a range error with the nearest bound as the value.
\<close>

datatype NumError = ErrSyntax | ErrRange

definition isDigit :: "char \<Rightarrow> bool" where
  "isDigit c = (48 \<le> (of_char c :: nat) \<and> (of_char c :: nat) \<le> 57)"

definition digitVal :: "char \<Rightarrow> nat" where
  "digitVal c = of_char c - 48"

definition maxUint64 :: nat where
  "maxUint64 = 2 ^ 64 - 1"

fun parseUintLoop :: "nat \<Rightarrow> string \<Rightarrow> nat \<times> NumError option" where
  "parseUintLoop n [] = (n, None)"
| "parseUintLoop n (c # cs) =
     (if \<not> isDigit c then (0, Some ErrSyntax)
      else if maxUint64 div 10 + 1 \<le> n then (maxUint64, Some ErrRange)
      else if maxUint64 < n * 10 + digitVal c then (maxUint64, Some ErrRange)
      else parseUintLoop (n * 10 + digitVal c) cs)"

definition ParseUint :: "string \<Rightarrow> nat \<times> NumError option" where
  "ParseUint s = (if s = [] then (0, Some ErrSyntax) else parseUintLoop 0 s)"

definition ParseInt :: "string \<Rightarrow> int \<times> NumError option" where
  "ParseInt s =
     (if s = [] then (0, Some ErrSyntax)
      else
        let neg = (hd s = CHR ''-'');
            s' = (if hd s = CHR ''+'' \<or> hd s = CHR ''-'' then tl s else s);
            (un, err) = ParseUint s'
        in if err = Some ErrSyntax then (0, err)
           else if \<not> neg \<and> 2 ^ 63 \<le> un then (2 ^ 63 - 1, Some ErrRange)
           else if neg \<and> 2 ^ 63 < un then (- (2 ^ 63), Some ErrRange)
           else (if neg then - int un else int un, None))"

definition Atoi :: "string \<Rightarrow> int \<times> NumError option" where
  "Atoi s = ParseInt s"

section \<open>Package collector: descriptors and metrics\<close>

text \<open>
  The channel \<^verbatim>\<open>ch\<close> a collector writes to is modelled by the list of metrics sent, in
  the order of the sends. A Go panic ends the pass (and the process): an outcome is the
  list of metrics sent so far and the panic, if there was one.
\<close>

datatype panic =
    UndeclaredMetric string
  | DuplicateMetric string
  | InconsistentCardinality string
  | IndexOutOfRange

datatype failure = Panicked panic | Failed string

datatype ValueType = GaugeValue | CounterValue

record Desc =
  Desc_subsystem :: string
  Desc_name :: string
  Desc_help :: string
  Desc_variableLabels :: "string list"

record Metric =
  Metric_desc :: Desc
  Metric_valueType :: ValueType
  Metric_val :: float64
  Metric_labelValues :: "string list"

record DefaultCollector =
  subsystem :: string
  descriptors :: "string \<rightharpoonup> Desc"

text \<open>
  Modelled from the spec: \<^verbatim>\<open>collector.NewDefaultCollector\<close> (package collector is not
  under src/). The registry starts empty for the given subsystem.
\<close>

definition NewDefaultCollector :: "string \<Rightarrow> DefaultCollector" where
  "NewDefaultCollector sub = \<lparr>subsystem = sub, descriptors = Map.empty\<rparr>"

text \<open>
  Modelled from the spec: \<^verbatim>\<open>DefaultCollector.SetDescriptor\<close> (package collector is not
  under src/), the spec's \<^verbatim>\<open>register(name, help, labelNames)\<close>: it stores the
  descriptor under the name; registering the same name twice is a programming error
  that fails fast.
\<close>

definition SetDescriptor ::
  "string \<Rightarrow> string \<Rightarrow> string list \<Rightarrow> DefaultCollector \<Rightarrow> panic + DefaultCollector" where
  "SetDescriptor name helpText variableLabels c =
     (case descriptors c name of
        Some d \<Rightarrow> Inl (DuplicateMetric name)
      | None \<Rightarrow>
          Inr (c\<lparr>descriptors := (descriptors c)(name \<mapsto>
            \<lparr>Desc_subsystem = subsystem c, Desc_name = name, Desc_help = helpText,
             Desc_variableLabels = variableLabels\<rparr>)\<rparr>))"

text \<open>The statements \<^verbatim>\<open>c.SetDescriptor(...)\<close> of a constructor, run in order.\<close>

fun setDescriptors ::
  "(DefaultCollector \<Rightarrow> panic + DefaultCollector) list \<Rightarrow> DefaultCollector \<Rightarrow>
   panic + DefaultCollector" where
  "setDescriptors [] c = Inr c"
| "setDescriptors (f # fs) c = (case f c of Inl p \<Rightarrow> Inl p | Inr c' \<Rightarrow> setDescriptors fs c')"

text \<open>
  Modelled from the spec: \<^verbatim>\<open>DefaultCollector.MakeGaugeMetric\<close> and
  \<^verbatim>\<open>MakeCounterMetric\<close> (package collector is not under src/). The spec's
  \<^verbatim>\<open>describe(name)\<close> looks the descriptor up and the label arity is validated before
  emission; an undeclared name or a wrong number of label values is a programming error
  that fails fast.
\<close>

definition makeMetric ::
  "DefaultCollector \<Rightarrow> string \<Rightarrow> float64 \<Rightarrow> ValueType \<Rightarrow> string list \<Rightarrow> panic + Metric" where
  "makeMetric c name v valueType labelValues =
     (case descriptors c name of
        None \<Rightarrow> Inl (UndeclaredMetric name)
      | Some desc \<Rightarrow>
          if length labelValues \<noteq> length (Desc_variableLabels desc)
          then Inl (InconsistentCardinality name)
          else Inr \<lparr>Metric_desc = desc, Metric_valueType = valueType, Metric_val = v,
                    Metric_labelValues = labelValues\<rparr>)"

definition MakeGaugeMetric ::
  "DefaultCollector \<Rightarrow> string \<Rightarrow> float64 \<Rightarrow> string list \<Rightarrow> panic + Metric" where
  "MakeGaugeMetric c name v labelValues = makeMetric c name v GaugeValue labelValues"

definition MakeCounterMetric ::
  "DefaultCollector \<Rightarrow> string \<Rightarrow> float64 \<Rightarrow> string list \<Rightarrow> panic + Metric" where
  "MakeCounterMetric c name v labelValues = makeMetric c name v CounterValue labelValues"

subsection \<open>Sending to the channel\<close>

type_synonym outcome = "Metric list \<times> panic option"

text \<open>Nothing sent, no panic: an empty block, \<^verbatim>\<open>continue\<close> or \<^verbatim>\<open>return\<close>.\<close>

definition skip :: outcome where
  "skip = ([], None)"

text \<open>\<^verbatim>\<open>ch <- m\<close>, where building \<open>m\<close> may panic.\<close>

definition send :: "panic + Metric \<Rightarrow> outcome" where
  "send m = (case m of Inl p \<Rightarrow> ([], Some p) | Inr x \<Rightarrow> ([x], None))"

text \<open>Two statements in sequence: the second runs unless the first panicked.\<close>

definition andThen :: "outcome \<Rightarrow> outcome \<Rightarrow> outcome" where
  "andThen a b = (case snd a of Some p \<Rightarrow> a | None \<Rightarrow> (fst a @ fst b, snd b))"

fun seqs :: "outcome list \<Rightarrow> outcome" where
  "seqs [] = skip"
| "seqs (a # as) = andThen a (seqs as)"

text \<open>\<^verbatim>\<open>for _, x := range xs { body }\<close> over a slice.\<close>

fun forEach :: "'a list \<Rightarrow> ('a \<Rightarrow> outcome) \<Rightarrow> outcome" where
  "forEach [] body = skip"
| "forEach (x # xs) body = andThen (body x) (forEach xs body)"

text \<open>
  \<^verbatim>\<open>for k, v := range m\<close> over a map visits every entry once, in an order Go leaves
  unspecified and changes from one loop to the next. The map literal is the list of its
  entries (Go rejects a literal with a repeated constant key), and the order of one loop
  is a parameter: a rank of the keys, the entries being visited by rising rank. Every
  order of the entries is the order of some rank.
\<close>

definition range_map :: "(string \<Rightarrow> nat) \<Rightarrow> (string \<times> 'v) list \<Rightarrow> (string \<times> 'v) list" where
  "range_map rank m = sort_key (\<lambda>kv. rank (fst kv)) m"

section \<open>The Pacemaker collector (collector/pacemaker/pacemaker.go)\<close>

subsection \<open>The snapshots\<close>

text \<open>
  Modelled from the spec: the types of packages crmmon and cib (not under src/), with
  the fields the collector reads; a nested field keeps the name of its path
  (\<^verbatim>\<open>Summary.ClusterOptions.StonithEnabled\<close>, \<^verbatim>\<open>Summary.LastChange.Time\<close>,
  \<^verbatim>\<open>NodeHistory.Node\<close>, \<^verbatim>\<open>Configuration.Constraints.RscLocations\<close>). The counters are
  Go \<^verbatim>\<open>int\<close>.
\<close>

record crmmon_Resource =
  Resource_Id :: string
  Resource_Role :: string
  Resource_Managed :: bool
  Resource_Active :: bool
  Resource_Orphaned :: bool
  Resource_Blocked :: bool
  Resource_Failed :: bool
  Resource_FailureIgnored :: bool

record crmmon_Node =
  Node_Name :: string
  Node_Type :: string
  Node_Online :: bool
  Node_Standby :: bool
  Node_StandbyOnFail :: bool
  Node_Maintenance :: bool
  Node_Pending :: bool
  Node_Unclean :: bool
  Node_Shutdown :: bool
  Node_ExpectedUp :: bool
  Node_DC :: bool
  Node_Resources :: "crmmon_Resource list"

record crmmon_ResourceHistory =
  ResourceHistory_Name :: string
  ResourceHistory_FailCount :: int
  ResourceHistory_MigrationThreshold :: int

record crmmon_NodeHistoryNode =
  NodeHistoryNode_Name :: string
  NodeHistoryNode_ResourceHistory :: "crmmon_ResourceHistory list"

record crmmon_Root =
  Summary_ClusterOptions_StonithEnabled :: bool
  Summary_LastChange_Time :: string
  Root_Nodes :: "crmmon_Node list"
  Root_Resources :: "crmmon_Resource list"
  NodeHistory_Node :: "crmmon_NodeHistoryNode list"

record cib_RscLocation =
  RscLocation_Id :: string
  RscLocation_Node :: string
  RscLocation_Resource :: string
  RscLocation_Role :: string
  RscLocation_Score :: string

record cib_Root =
  Configuration_Constraints_RscLocations :: "cib_RscLocation list"

subsection \<open>NewCollector\<close>

text \<open>
  The two parsers are kept as the paths they were built from; what their \<^verbatim>\<open>Parse\<close>
  returns on a scrape is an argument of \<open>pacemaker_Collect\<close>.
\<close>

record pacemakerCollector =
  pacemaker_DefaultCollector :: DefaultCollector
  crmMonParser :: string
  cibParser :: string

text \<open>
  \<open>checkExecutables\<close> is what \<^verbatim>\<open>collector.CheckExecutables(crmMonPath, cibAdminPath)\<close>
  returned: \<open>None\<close> for \<^verbatim>\<open>nil\<close>, otherwise the error.
\<close>

definition pacemaker_NewCollector ::
  "string \<Rightarrow> string \<Rightarrow> string option \<Rightarrow> failure + pacemakerCollector" where
  "pacemaker_NewCollector crmMonPath cibAdminPath checkExecutables =
     (case checkExecutables of
        Some err \<Rightarrow> Inl (Failed (''could not initialize Pacemaker collector: '' @ err))
      | None \<Rightarrow>
          (case setDescriptors
             [SetDescriptor ''nodes'' ''The nodes in the cluster; one line per name, per status''
                [''node'', ''type'', ''status''],
              SetDescriptor ''resources'' ''The resources in the cluster; one line per id, per status''
                [''node'', ''resource'', ''role'', ''managed'', ''status''],
              SetDescriptor ''stonith_enabled'' ''Whether or not stonith is enabled'' [],
              SetDescriptor ''fail_count'' ''The Fail count number per node and resource id''
                [''node'', ''resource''],
              SetDescriptor ''migration_threshold''
                ''The migration_threshold number per node and resource id''
                [''node'', ''resource''],
              SetDescriptor ''config_last_change''
                ''The timestamp of the last change of the cluster configuration'' [],
              SetDescriptor ''location_constraints''
                ''Resource location constraints. The value indicates the score.''
                [''constraint'', ''node'', ''resource'', ''role'']]
             (NewDefaultCollector ''pacemaker'') of
             Inl p \<Rightarrow> Inl (Panicked p)
           | Inr d \<Rightarrow>
               Inr \<lparr>pacemaker_DefaultCollector = d, crmMonParser = crmMonPath,
                    cibParser = cibAdminPath\<rparr>))"

subsection \<open>The projections\<close>

text \<open>
  The places where the collector ranges over a map: the status map of the \<open>i\<close>-th node,
  of the \<open>j\<close>-th resource of the \<open>i\<close>-th node, of the \<open>j\<close>-th ungrouped resource. A
  \<open>map_order\<close> gives the order Go took at each of them.
\<close>

datatype range_site =
    NodeStatuses nat
  | NodeResourceStatuses nat nat
  | UngroupedResourceStatuses nat

type_synonym map_order = "range_site \<Rightarrow> string \<Rightarrow> nat"

definition resourceStatuses :: "crmmon_Resource \<Rightarrow> (string \<times> bool) list" where
  "resourceStatuses resource =
     [(''active'', Resource_Active resource),
      (''orphaned'', Resource_Orphaned resource),
      (''blocked'', Resource_Blocked resource),
      (''failed'', Resource_Failed resource),
      (''failure_ignored'', Resource_FailureIgnored resource),
      ([], \<not> (Resource_Active resource \<or> Resource_Orphaned resource \<or>
              Resource_Blocked resource \<or> Resource_Failed resource \<or>
              Resource_FailureIgnored resource))]"

definition recordResource ::
  "pacemakerCollector \<Rightarrow> (string \<Rightarrow> nat) \<Rightarrow> crmmon_Resource \<Rightarrow> string \<Rightarrow> outcome" where
  "recordResource c rank resource nodeName =
     forEach (range_map rank (resourceStatuses resource))
       (\<lambda>(resourceStatus, flag).
          if \<not> flag then skip
          else send (MakeGaugeMetric (pacemaker_DefaultCollector c) ''resources'' (Finite 1)
                 [nodeName,
                  Resource_Id resource,
                  ToLower (Resource_Role resource),
                  FormatBool (Resource_Managed resource),
                  resourceStatus]))"

definition recordNodeResources ::
  "pacemakerCollector \<Rightarrow> (nat \<Rightarrow> string \<Rightarrow> nat) \<Rightarrow> crmmon_Node \<Rightarrow> outcome" where
  "recordNodeResources c ranks node =
     (let nodeName = Node_Name node in
      forEach (enumerate 0 (Node_Resources node))
        (\<lambda>(j, resource). recordResource c (ranks j) resource nodeName))"

definition nodeType :: "crmmon_Node \<Rightarrow> string" where
  "nodeType node =
     (if Node_Type node = ''member'' \<or> Node_Type node = ''ping'' \<or> Node_Type node = ''remote''
      then Node_Type node
      else ''unknown'')"

definition nodeStatuses :: "crmmon_Node \<Rightarrow> (string \<times> bool) list" where
  "nodeStatuses node =
     [(''online'', Node_Online node),
      (''standby'', Node_Standby node),
      (''standby_onfail'', Node_StandbyOnFail node),
      (''maintenance'', Node_Maintenance node),
      (''pending'', Node_Pending node),
      (''unclean'', Node_Unclean node),
      (''shutdown'', Node_Shutdown node),
      (''expected_up'', Node_ExpectedUp node),
      (''dc'', Node_DC node)]"

text \<open>The inner loop of \<^verbatim>\<open>recordNodes\<close>, over the status map of one node.\<close>

definition recordNodeStatuses ::
  "pacemakerCollector \<Rightarrow> (string \<Rightarrow> nat) \<Rightarrow> crmmon_Node \<Rightarrow> outcome" where
  "recordNodeStatuses c rank node =
     forEach (range_map rank (nodeStatuses node))
       (\<lambda>(nodeStatus, flag).
          if flag
          then send (MakeGaugeMetric (pacemaker_DefaultCollector c) ''nodes'' (Finite 1)
                 [Node_Name node, nodeType node, nodeStatus])
          else skip)"

definition recordNodes :: "pacemakerCollector \<Rightarrow> map_order \<Rightarrow> crmmon_Root \<Rightarrow> outcome" where
  "recordNodes c order crmMon =
     forEach (enumerate 0 (Root_Nodes crmMon))
       (\<lambda>(i, node).
          andThen (recordNodeStatuses c (order (NodeStatuses i)) node)
                  (recordNodeResources c (\<lambda>j. order (NodeResourceStatuses i j)) node))"

definition recordUngroupedResources ::
  "pacemakerCollector \<Rightarrow> map_order \<Rightarrow> crmmon_Root \<Rightarrow> outcome" where
  "recordUngroupedResources c order crmMon =
     forEach (enumerate 0 (Root_Resources crmMon))
       (\<lambda>(j, resource). recordResource c (order (UngroupedResourceStatuses j)) resource [])"

text \<open>The value \<^verbatim>\<open>recordFailCounts\<close> sends for a raw fail count.\<close>

definition failCount :: "int \<Rightarrow> float64" where
  "failCount raw = (if 1000000 \<le> raw then math_Inf 1 else float64_of_int raw)"

definition recordFailCounts :: "pacemakerCollector \<Rightarrow> crmmon_Root \<Rightarrow> outcome" where
  "recordFailCounts c crmMon =
     forEach (NodeHistory_Node crmMon)
       (\<lambda>node.
          forEach (NodeHistoryNode_ResourceHistory node)
            (\<lambda>resHistory.
               send (MakeGaugeMetric (pacemaker_DefaultCollector c) ''fail_count''
                 (failCount (ResourceHistory_FailCount resHistory))
                 [NodeHistoryNode_Name node, ResourceHistory_Name resHistory])))"

text \<open>
  \<open>parseANSIC\<close> stands for \<^verbatim>\<open>time.Parse(time.ANSIC, _)\<close> followed by \<^verbatim>\<open>Unix()\<close>: the epoch
  seconds of the parsed time, \<open>None\<close> where the parse fails.
\<close>

definition recordResourceAgentsChanges ::
  "pacemakerCollector \<Rightarrow> (string \<Rightarrow> int option) \<Rightarrow> crmmon_Root \<Rightarrow> outcome" where
  "recordResourceAgentsChanges c parseANSIC crmMon =
     (case parseANSIC (Summary_LastChange_Time crmMon) of
        None \<Rightarrow> skip
      | Some t \<Rightarrow>
          send (MakeCounterMetric (pacemaker_DefaultCollector c) ''config_last_change''
            (float64_of_int t) []))"

definition recordMigrationThresholds :: "pacemakerCollector \<Rightarrow> crmmon_Root \<Rightarrow> outcome" where
  "recordMigrationThresholds c crmMon =
     forEach (NodeHistory_Node crmMon)
       (\<lambda>node.
          forEach (NodeHistoryNode_ResourceHistory node)
            (\<lambda>resHistory.
               send (MakeGaugeMetric (pacemaker_DefaultCollector c) ''migration_threshold''
                 (float64_of_int (ResourceHistory_MigrationThreshold resHistory))
                 [NodeHistoryNode_Name node, ResourceHistory_Name resHistory])))"

text \<open>The value \<^verbatim>\<open>recordConstraints\<close> sends for a score string.\<close>

definition constraintScore :: "string \<Rightarrow> float64" where
  "constraintScore score =
     (if score = ''INFINITY'' then math_Inf 1
      else if score = ''-INFINITY'' then math_Inf (- 1)
      else float64_of_int (fst (Atoi score)))"

definition recordConstraints :: "pacemakerCollector \<Rightarrow> cib_Root \<Rightarrow> outcome" where
  "recordConstraints c CIB =
     forEach (Configuration_Constraints_RscLocations CIB)
       (\<lambda>constraint.
          send (MakeGaugeMetric (pacemaker_DefaultCollector c) ''location_constraints''
            (constraintScore (RscLocation_Score constraint))
            [RscLocation_Id constraint,
             RscLocation_Node constraint,
             RscLocation_Resource constraint,
             ToLower (RscLocation_Role constraint)]))"

text \<open>
  \<open>crmMonParse\<close> and \<open>cibParse\<close> are what \<^verbatim>\<open>c.crmMonParser.Parse()\<close> and
  \<^verbatim>\<open>c.cibParser.Parse()\<close> return on this scrape: the error (\<open>Inl\<close>) or the snapshot. The
  warnings the collector logs are not part of the model.
\<close>

definition pacemaker_Collect ::
  "pacemakerCollector \<Rightarrow> map_order \<Rightarrow> (string \<Rightarrow> int option) \<Rightarrow>
   string + crmmon_Root \<Rightarrow> string + cib_Root \<Rightarrow> outcome" where
  "pacemaker_Collect c order parseANSIC crmMonParse cibParse =
     (case crmMonParse of
        Inl err \<Rightarrow> skip
      | Inr crmMon \<Rightarrow>
          (case cibParse of
             Inl err \<Rightarrow> skip
           | Inr CIB \<Rightarrow>
               (let stonithEnabled =
                      (if Summary_ClusterOptions_StonithEnabled crmMon then Finite 1 else Finite 0)
                in seqs
                     [send (MakeGaugeMetric (pacemaker_DefaultCollector c) ''stonith_enabled''
                        stonithEnabled []),
                      recordNodes c order crmMon,
                      recordUngroupedResources c order crmMon,
                      recordFailCounts c crmMon,
                      recordMigrationThresholds c crmMon,
                      recordResourceAgentsChanges c parseANSIC crmMon,
                      recordConstraints c CIB])))"

section \<open>The DRBD collector (package drbd)\<close>

subsection \<open>The snapshot\<close>

text \<open>The struct \<^verbatim>\<open>drbdStatus\<close> with its nested structs, one record each.\<close>

record drbd_Device =
  Device_Volume :: int
  Device_Written :: int
  Device_Read :: int
  Device_AlWrites :: int
  Device_BmWrites :: int
  Device_UpPending :: int
  Device_LoPending :: int
  Device_Quorum :: bool
  Device_DiskState :: string

record drbd_PeerDevice =
  PeerDevice_Volume :: int
  PeerDevice_Received :: int
  PeerDevice_Sent :: int
  PeerDevice_Pending :: int
  PeerDevice_Unacked :: int
  PeerDevice_PeerDiskState :: string
  PeerDevice_PercentInSync :: float64

record drbd_Connection =
  Connection_PeerNodeID :: int
  Connection_PeerRole :: string
  Connection_PeerDevices :: "drbd_PeerDevice list"

record drbdStatus =
  drbdStatus_Name :: string
  drbdStatus_Role :: string
  drbdStatus_Devices :: "drbd_Device list"
  drbdStatus_Connections :: "drbd_Connection list"

subsection \<open>NewCollector\<close>

record drbdCollector =
  drbd_DefaultCollector :: DefaultCollector
  drbdsetupPath :: string
  drbdSplitBrainPath :: string

text \<open>
  \<open>checkExecutables\<close> is what \<^verbatim>\<open>collector.CheckExecutables(drbdSetupPath)\<close> returned:
  \<open>None\<close> for \<^verbatim>\<open>nil\<close>, otherwise the error.
\<close>

definition drbd_NewCollector ::
  "string \<Rightarrow> string \<Rightarrow> string option \<Rightarrow> failure + drbdCollector" where
  "drbd_NewCollector drbdSetupPath drbdSplitBrainPath' checkExecutables =
     (case checkExecutables of
        Some err \<Rightarrow> Inl (Failed (''could not initialize DRBD collector: '' @ err))
      | None \<Rightarrow>
          (case setDescriptors
             [SetDescriptor ''resources'' ''The DRBD resources; 1 line per name, per volume''
                [''resource'', ''role'', ''volume'', ''disk_state''],
              SetDescriptor ''written'' ''KiB written to DRBD; 1 line per res, per volume''
                [''resource'', ''volume''],
              SetDescriptor ''read'' ''KiB read from DRBD; 1 line per res, per volume''
                [''resource'', ''volume''],
              SetDescriptor ''al_writes'' ''Writes to activity log; 1 line per res, per volume''
                [''resource'', ''volume''],
              SetDescriptor ''bm_writes'' ''Writes to bitmap; 1 line per res, per volume''
                [''resource'', ''volume''],
              SetDescriptor ''upper_pending'' ''Upper pending; 1 line per res, per volume''
                [''resource'', ''volume''],
              SetDescriptor ''lower_pending'' ''Lower pending; 1 line per res, per volume''
                [''resource'', ''volume''],
              SetDescriptor ''quorum'' ''Quorum status per resource and per volume''
                [''resource'', ''volume''],
              SetDescriptor ''connections''
                ''The DRBD resource connections; 1 line per per resource, per peer_node_id''
                [''resource'', ''peer_node_id'', ''peer_role'', ''volume'', ''peer_disk_state''],
              SetDescriptor ''connections_sync''
                ''The in sync percentage value for DRBD resource connections''
                [''resource'', ''peer_node_id'', ''volume''],
              SetDescriptor ''connections_received'' ''KiB received per connection''
                [''resource'', ''peer_node_id'', ''volume''],
              SetDescriptor ''connections_sent'' ''KiB sent per connection''
                [''resource'', ''peer_node_id'', ''volume''],
              SetDescriptor ''connections_pending'' ''Pending value per connection''
                [''resource'', ''peer_node_id'', ''volume''],
              SetDescriptor ''connections_unacked'' ''Unacked value per connection''
                [''resource'', ''peer_node_id'', ''volume''],
              SetDescriptor ''split_brain''
                ''Whether a split brain has been detected; 1 line per resource, per volume.''
                [''resource'', ''volume'']]
             (NewDefaultCollector ''drbd'') of
             Inl p \<Rightarrow> Inl (Panicked p)
           | Inr d \<Rightarrow>
               Inr \<lparr>drbd_DefaultCollector = d, drbdsetupPath = drbdSetupPath,
                    drbdSplitBrainPath = drbdSplitBrainPath'\<rparr>))"

subsection \<open>The split-brain markers\<close>

text \<open>
  An index expression \<^verbatim>\<open>xs[i]\<close> followed by the rest of the block: Go panics when the
  index is out of range.
\<close>

definition indexThen :: "'a list \<Rightarrow> nat \<Rightarrow> ('a \<Rightarrow> outcome) \<Rightarrow> outcome" where
  "indexThen xs i rest = (if i < length xs then rest (xs ! i) else ([], Some IndexOutOfRange))"

text \<open>
  \<^verbatim>\<open>filepath.Glob(c.drbdSplitBrainPath + "/drbd-split-brain-detected-*")\<close> on a directory
  whose entries are \<open>names\<close>: the paths of the entries that begin with the prefix (the
  star matches any run of bytes of a file name). The directory path is taken to hold no
  pattern character, and the directory not to change during the pass.
\<close>

definition Glob_splitBrain :: "string \<Rightarrow> string list \<Rightarrow> string list" where
  "Glob_splitBrain dir names =
     map (\<lambda>n. dir @ ''/'' @ n)
       (filter (\<lambda>n. take (length ''drbd-split-brain-detected-'') n = ''drbd-split-brain-detected-'')
          names)"

text \<open>
  \<open>files\<close> are the names of the entries \<^verbatim>\<open>ioutil.ReadDir(c.drbdSplitBrainPath)\<close> returned,
  none when it returned an error (the collector drops the error).
\<close>

definition recordDrbdSplitBrainMetric :: "drbdCollector \<Rightarrow> string list \<Rightarrow> outcome" where
  "recordDrbdSplitBrainMetric c files =
     forEach files
       (\<lambda>f.
          let match = Glob_splitBrain (drbdSplitBrainPath c) files in
          if match = [] then skip
          else
            indexThen (Split f ''drbd-split-brain-detected-'') 1
              (\<lambda>resAndVolume.
                 if length (Split resAndVolume ''-'') \<noteq> 2 then skip
                 else
                   let resourceAndVolume = Split resAndVolume ''-'' in
                   indexThen resourceAndVolume 0
                     (\<lambda>res. indexThen resourceAndVolume 1
                        (\<lambda>vol. send (MakeGaugeMetric (drbd_DefaultCollector c) ''split_brain''
                                  (Finite 1) [res, vol])))))"

subsection \<open>Collect\<close>

text \<open>
  \<open>unmarshal\<close> stands for \<^verbatim>\<open>json.Unmarshal\<close> into a \<^verbatim>\<open>[]drbdStatus\<close>: the error or the
  decoded slice.
\<close>

definition parseDrbdStatus ::
  "(string \<Rightarrow> string + drbdStatus list) \<Rightarrow> string \<Rightarrow> string + drbdStatus list" where
  "parseDrbdStatus unmarshal statusRaw =
     (case unmarshal statusRaw of
        Inl err \<Rightarrow> Inl err
      | Inr drbdDevs \<Rightarrow> Inr drbdDevs)"

text \<open>The body of the loop over the devices of a resource.\<close>

definition recordDevice :: "drbdCollector \<Rightarrow> drbdStatus \<Rightarrow> drbd_Device \<Rightarrow> outcome" where
  "recordDevice c resource device =
     (let d = drbd_DefaultCollector c in
      seqs
        [send (MakeGaugeMetric d ''resources'' (Finite 1)
           [drbdStatus_Name resource, drbdStatus_Role resource, Itoa (Device_Volume device),
            ToLower (Device_DiskState device)]),
         send (MakeGaugeMetric d ''written'' (float64_of_int (Device_Written device))
           [drbdStatus_Name resource, Itoa (Device_Volume device)]),
         send (MakeGaugeMetric d ''read'' (float64_of_int (Device_Read device))
           [drbdStatus_Name resource, Itoa (Device_Volume device)]),
         send (MakeGaugeMetric d ''al_writes'' (float64_of_int (Device_AlWrites device))
           [drbdStatus_Name resource, Itoa (Device_Volume device)]),
         send (MakeGaugeMetric d ''bm_writes'' (float64_of_int (Device_BmWrites device))
           [drbdStatus_Name resource, Itoa (Device_Volume device)]),
         send (MakeGaugeMetric d ''upper_pending'' (float64_of_int (Device_UpPending device))
           [drbdStatus_Name resource, Itoa (Device_Volume device)]),
         send (MakeGaugeMetric d ''lower_pending'' (float64_of_int (Device_LoPending device))
           [drbdStatus_Name resource, Itoa (Device_Volume device)]),
         (if Device_Quorum device = True
          then send (MakeGaugeMetric d ''quorum'' (Finite 1)
                 [drbdStatus_Name resource, Itoa (Device_Volume device)])
          else send (MakeGaugeMetric d ''quorum'' (Finite 0)
                 [drbdStatus_Name resource, Itoa (Device_Volume device)]))])"

text \<open>The body of the loop over the peer devices of a connection.\<close>

definition recordPeerDevice ::
  "drbdCollector \<Rightarrow> drbdStatus \<Rightarrow> drbd_Connection \<Rightarrow> drbd_PeerDevice \<Rightarrow> outcome" where
  "recordPeerDevice c resource conn peerDev =
     (let d = drbd_DefaultCollector c in
      seqs
        [send (MakeGaugeMetric d ''connections'' (Finite 1)
           [drbdStatus_Name resource, Itoa (Connection_PeerNodeID conn),
            Connection_PeerRole conn, Itoa (PeerDevice_Volume peerDev),
            ToLower (PeerDevice_PeerDiskState peerDev)]),
         send (MakeGaugeMetric d ''connections_sync'' (PeerDevice_PercentInSync peerDev)
           [drbdStatus_Name resource, Itoa (Connection_PeerNodeID conn),
            Itoa (PeerDevice_Volume peerDev)]),
         send (MakeGaugeMetric d ''connections_received''
           (float64_of_int (PeerDevice_Received peerDev))
           [drbdStatus_Name resource, Itoa (Connection_PeerNodeID conn),
            Itoa (PeerDevice_Volume peerDev)]),
         send (MakeGaugeMetric d ''connections_sent'' (float64_of_int (PeerDevice_Sent peerDev))
           [drbdStatus_Name resource, Itoa (Connection_PeerNodeID conn),
            Itoa (PeerDevice_Volume peerDev)]),
         send (MakeGaugeMetric d ''connections_pending''
           (float64_of_int (PeerDevice_Pending peerDev))
           [drbdStatus_Name resource, Itoa (Connection_PeerNodeID conn),
            Itoa (PeerDevice_Volume peerDev)]),
         send (MakeGaugeMetric d ''connections_unacked''
           (float64_of_int (PeerDevice_Unacked peerDev))
           [drbdStatus_Name resource, Itoa (Connection_PeerNodeID conn),
            Itoa (PeerDevice_Volume peerDev)])])"

text \<open>The body of the loop over the resources of the decoded status.\<close>

definition recordDrbdResource :: "drbdCollector \<Rightarrow> drbdStatus \<Rightarrow> outcome" where
  "recordDrbdResource c resource =
     andThen
       (forEach (drbdStatus_Devices resource) (recordDevice c resource))
       (if length (drbdStatus_Connections resource) = 0 then skip
        else
          forEach (drbdStatus_Connections resource)
            (\<lambda>conn.
               if length (Connection_PeerDevices conn) = 0 then skip
               else forEach (Connection_PeerDevices conn) (recordPeerDevice c resource conn)))"

text \<open>
  \<open>statusOutput\<close> is what \<^verbatim>\<open>exec.Command(c.drbdsetupPath, "status", "--json").Output()\<close>
  returned on this scrape: the error (\<open>Inl\<close>) or the bytes of standard output. The
  warnings the collector logs are not part of the model.
\<close>

definition drbd_Collect ::
  "drbdCollector \<Rightarrow> (string \<Rightarrow> string + drbdStatus list) \<Rightarrow> string list \<Rightarrow>
   string + string \<Rightarrow> outcome" where
  "drbd_Collect c unmarshal files statusOutput =
     andThen
       (recordDrbdSplitBrainMetric c files)
       (case statusOutput of
          Inl err \<Rightarrow> skip
        | Inr drbdStatusRaw \<Rightarrow>
            (case parseDrbdStatus unmarshal drbdStatusRaw of
               Inl err \<Rightarrow> skip
             | Inr drbdDev \<Rightarrow> forEach drbdDev (recordDrbdResource c)))"

section \<open>Auxiliary notions\<close>

text \<open>The descriptor a collector has registered under a name.\<close>

definition registered :: "DefaultCollector \<Rightarrow> string \<Rightarrow> Desc" where
  "registered d name = the (descriptors d name)"

definition isRegistered :: "DefaultCollector \<Rightarrow> string \<Rightarrow> string \<Rightarrow> string list \<Rightarrow> bool" where
  "isRegistered d sub name labels =
     (descriptors d name = Some (registered d name) \<and>
      Desc_subsystem (registered d name) = sub \<and>
      Desc_name (registered d name) = name \<and>
      Desc_variableLabels (registered d name) = labels)"

text \<open>The gauge and the counter a successful \<open>makeMetric\<close> builds.\<close>

definition metricOf :: "DefaultCollector \<Rightarrow> string \<Rightarrow> ValueType \<Rightarrow> float64 \<Rightarrow> string list \<Rightarrow> Metric" where
  "metricOf d name valueType v labelValues =
     \<lparr>Metric_desc = registered d name, Metric_valueType = valueType, Metric_val = v,
      Metric_labelValues = labelValues\<rparr>"

text \<open>
  An outcome whose panic state satisfies \<open>Q\<close> and whose metrics all satisfy \<open>P\<close>.
\<close>

definition emits :: "(panic option \<Rightarrow> bool) \<Rightarrow> (Metric \<Rightarrow> bool) \<Rightarrow> outcome \<Rightarrow> bool" where
  "emits Q P out = (Q (snd out) \<and> list_all P (fst out))"

section \<open>Notions of the claims\<close>

text \<open>
  A well-formed signed integer string, in the words of the claim on constraint scores:
  an optional sign followed by at least one decimal digit, and the integer it denotes.
\<close>

definition unsignedPart :: "string \<Rightarrow> string" where
  "unsignedPart s = (if s \<noteq> [] \<and> (hd s = CHR ''+'' \<or> hd s = CHR ''-'') then tl s else s)"

definition decimalValue :: "string \<Rightarrow> nat" where
  "decimalValue ds = foldl (\<lambda>n c. n * 10 + digitVal c) 0 ds"

definition signedDecimal :: "string \<Rightarrow> bool" where
  "signedDecimal s = (unsignedPart s \<noteq> [] \<and> list_all isDigit (unsignedPart s))"

definition signedValue :: "string \<Rightarrow> int" where
  "signedValue s =
     (if s \<noteq> [] \<and> hd s = CHR ''-'' then - int (decimalValue (unsignedPart s))
      else int (decimalValue (unsignedPart s)))"

section \<open>A concrete scrape\<close>

text \<open>
  A small cluster, used wherever a statement is evaluated on a concrete input: two
  nodes (the second of a type the collector does not know), one ungrouped resource, two
  fail counts around the sentinel, and four location constraints.
\<close>

definition example_rsc1 :: crmmon_Resource where
  "example_rsc1 =
     \<lparr>Resource_Id = ''rsc1'', Resource_Role = ''Started'', Resource_Managed = True,
      Resource_Active = True, Resource_Orphaned = False, Resource_Blocked = False,
      Resource_Failed = True, Resource_FailureIgnored = False\<rparr>"

definition example_rsc2 :: crmmon_Resource where
  "example_rsc2 =
     \<lparr>Resource_Id = ''rsc2'', Resource_Role = ''Stopped'', Resource_Managed = False,
      Resource_Active = False, Resource_Orphaned = False, Resource_Blocked = False,
      Resource_Failed = False, Resource_FailureIgnored = False\<rparr>"

definition example_node1 :: crmmon_Node where
  "example_node1 =
     \<lparr>Node_Name = ''node01'', Node_Type = ''member'', Node_Online = True,
      Node_Standby = False, Node_StandbyOnFail = False, Node_Maintenance = False,
      Node_Pending = False, Node_Unclean = False, Node_Shutdown = False,
      Node_ExpectedUp = True, Node_DC = True, Node_Resources = [example_rsc1]\<rparr>"

definition example_node2 :: crmmon_Node where
  "example_node2 =
     \<lparr>Node_Name = ''node02'', Node_Type = ''guest'', Node_Online = False,
      Node_Standby = False, Node_StandbyOnFail = False, Node_Maintenance = False,
      Node_Pending = False, Node_Unclean = False, Node_Shutdown = False,
      Node_ExpectedUp = False, Node_DC = False, Node_Resources = []\<rparr>"

definition example_crmMon :: crmmon_Root where
  "example_crmMon =
     \<lparr>Summary_ClusterOptions_StonithEnabled = True,
      Summary_LastChange_Time = ''Fri Oct 18 11:48:22 2019'',
      Root_Nodes = [example_node1, example_node2],
      Root_Resources = [example_rsc2],
      NodeHistory_Node =
        [\<lparr>NodeHistoryNode_Name = ''node01'',
          NodeHistoryNode_ResourceHistory =
            [\<lparr>ResourceHistory_Name = ''rsc1'', ResourceHistory_FailCount = 1000000,
              ResourceHistory_MigrationThreshold = 5000\<rparr>,
             \<lparr>ResourceHistory_Name = ''rsc2'', ResourceHistory_FailCount = 999999,
              ResourceHistory_MigrationThreshold = 3\<rparr>]\<rparr>]\<rparr>"

definition example_CIB :: cib_Root where
  "example_CIB =
     \<lparr>Configuration_Constraints_RscLocations =
        [\<lparr>RscLocation_Id = ''loc1'', RscLocation_Node = ''node01'',
          RscLocation_Resource = ''rsc1'', RscLocation_Role = ''Started'',
          RscLocation_Score = ''INFINITY''\<rparr>,
         \<lparr>RscLocation_Id = ''loc2'', RscLocation_Node = ''node02'',
          RscLocation_Resource = ''rsc1'', RscLocation_Role = ''Master'',
          RscLocation_Score = ''-INFINITY''\<rparr>,
         \<lparr>RscLocation_Id = ''loc3'', RscLocation_Node = ''node01'',
          RscLocation_Resource = ''rsc2'', RscLocation_Role = ''Started'',
          RscLocation_Score = ''150''\<rparr>,
         \<lparr>RscLocation_Id = ''loc4'', RscLocation_Node = ''node02'',
          RscLocation_Resource = ''rsc2'', RscLocation_Role = ''Started'',
          RscLocation_Score = ''high''\<rparr>]\<rparr>"

text \<open>An order of the map loops: by the length of the key, at every place.\<close>

definition example_order :: map_order where
  "example_order site key = length key"

text \<open>A time parser that knows the one time stamp of the example.\<close>

definition example_parseANSIC :: "string \<Rightarrow> int option" where
  "example_parseANSIC s = (if s = ''Fri Oct 18 11:48:22 2019'' then Some 1571399302 else None)"

text \<open>The collectors \<open>NewCollector\<close> builds when the executables are in place.\<close>

definition examplePacemaker :: pacemakerCollector where
  "examplePacemaker =
     projr (pacemaker_NewCollector ''/usr/sbin/crm_mon'' ''/usr/sbin/cibadmin'' None)"

definition exampleDrbd :: drbdCollector where
  "exampleDrbd = projr (drbd_NewCollector ''/sbin/drbdsetup'' ''/var/run/drbd/splitbrain'' None)"

text \<open>
  The status of one DRBD resource with one volume and one peer, and a decoder that
  knows the one document standing for it.
\<close>

definition example_drbdStatus :: drbdStatus where
  "example_drbdStatus =
     \<lparr>drbdStatus_Name = ''1-single-0'', drbdStatus_Role = ''Primary'',
      drbdStatus_Devices =
        [\<lparr>Device_Volume = 0, Device_Written = 4096, Device_Read = 1024,
          Device_AlWrites = 7, Device_BmWrites = 0, Device_UpPending = 0,
          Device_LoPending = 0, Device_Quorum = True, Device_DiskState = ''UpToDate''\<rparr>],
      drbdStatus_Connections =
        [\<lparr>Connection_PeerNodeID = 1, Connection_PeerRole = ''Secondary'',
          Connection_PeerDevices =
            [\<lparr>PeerDevice_Volume = 0, PeerDevice_Received = 10, PeerDevice_Sent = 20,
              PeerDevice_Pending = 0, PeerDevice_Unacked = 0,
              PeerDevice_PeerDiskState = ''UpToDate'',
              PeerDevice_PercentInSync = Finite 100\<rparr>]\<rparr>]\<rparr>"

definition example_unmarshal :: "string \<Rightarrow> string + drbdStatus list" where
  "example_unmarshal raw =
     (if raw = ''[{1-single-0}]'' then Inr [example_drbdStatus]
      else Inl ''unexpected end of JSON input'')"

section \<open>Auxiliary lemmas\<close>

text \<open>Equations that evaluate the string functions on a literal.\<close>

lemmas go_string_eval =
  ToLower_def toLowerByte_def isUpper_def Itoa_def natDigits.simps digitByte_def
  FormatBool_def char_of_def bit_Suc_0_iff

lemma send_gauge:
  "isRegistered d sub name labels \<Longrightarrow> length ls = length labels \<Longrightarrow>
   send (MakeGaugeMetric d name v ls) = ([metricOf d name GaugeValue v ls], None)"
  by (simp add: isRegistered_def send_def MakeGaugeMetric_def makeMetric_def metricOf_def)

lemma send_counter:
  "isRegistered d sub name labels \<Longrightarrow> length ls = length labels \<Longrightarrow>
   send (MakeCounterMetric d name v ls) = ([metricOf d name CounterValue v ls], None)"
  by (simp add: isRegistered_def send_def MakeCounterMetric_def makeMetric_def metricOf_def)

lemma andThen_pure [simp]: "andThen (xs, None) (ys, p) = (xs @ ys, p)"
  by (simp add: andThen_def)

lemma andThen_skip [simp]: "andThen skip b = b" "andThen a skip = a"
  by (cases a; simp add: andThen_def skip_def split: option.splits)+

lemma forEach_pure:
  "(\<And>x. x \<in> set xs \<Longrightarrow> body x = (g x, None)) \<Longrightarrow>
   forEach xs body = (concat (map g xs), None)"
  by (induction xs) (simp_all add: skip_def)

lemma forEach_map:
  "(\<And>x. x \<in> set xs \<Longrightarrow> body x = ([g x], None)) \<Longrightarrow>
   forEach xs body = (map g xs, None)"
  by (induction xs) (simp_all add: skip_def)

lemma forEach_filter:
  "(\<And>x. x \<in> set xs \<Longrightarrow> body x = (if P x then ([g x], None) else skip)) \<Longrightarrow>
   forEach xs body = (map g (filter P xs), None)"
  by (induction xs) (simp_all add: skip_def)

lemma forEach_cong:
  "(\<And>x. x \<in> set xs \<Longrightarrow> body x = body' x) \<Longrightarrow> forEach xs body = forEach xs body'"
  by (induction xs) simp_all

lemma seqs_pure:
  "seqs (map (\<lambda>x. ([x], None)) ms) = (ms, None)"
  by (induction ms) (simp_all add: skip_def)

lemma emits_skip: "Q None \<Longrightarrow> emits Q P skip"
  by (simp add: emits_def skip_def)

lemma emits_pure: "Q None \<Longrightarrow> list_all P ms \<Longrightarrow> emits Q P (ms, None)"
  by (simp add: emits_def)

lemma emits_andThen: "emits Q P a \<Longrightarrow> emits Q P b \<Longrightarrow> emits Q P (andThen a b)"
  by (cases a) (auto simp: emits_def andThen_def split: option.splits)

lemma emits_seqs: "Q None \<Longrightarrow> (\<And>a. a \<in> set as \<Longrightarrow> emits Q P a) \<Longrightarrow> emits Q P (seqs as)"
  by (induction as) (simp_all add: emits_skip emits_andThen)

lemma emits_forEach:
  "Q None \<Longrightarrow> (\<And>x. x \<in> set xs \<Longrightarrow> emits Q P (body x)) \<Longrightarrow> emits Q P (forEach xs body)"
  by (induction xs) (simp_all add: emits_skip emits_andThen)

lemma emits_indexThen:
  "Q (Some IndexOutOfRange) \<Longrightarrow> (\<And>x. emits Q P (rest x)) \<Longrightarrow> emits Q P (indexThen xs i rest)"
  by (simp add: indexThen_def emits_def)

lemma emits_mono:
  "emits Q P out \<Longrightarrow> (\<And>p. Q p \<Longrightarrow> Q' p) \<Longrightarrow> (\<And>m. P m \<Longrightarrow> P' m) \<Longrightarrow> emits Q' P' out"
  by (auto simp: emits_def list_all_iff)

subsection \<open>The maps a collector ranges over\<close>

lemma filter_range_map:
  "filter P (range_map rank m) = range_map rank (filter P m)"
  by (simp add: range_map_def filter_sort)

lemma mset_range_map [simp]: "mset (range_map rank m) = mset m"
  by (simp add: range_map_def)

lemma set_range_map [simp]: "set (range_map rank m) = set m"
  by (simp add: range_map_def)

lemma length_range_map [simp]: "length (range_map rank m) = length m"
  by (simp add: range_map_def)

lemma distinct_keys_range_map:
  "distinct (map fst (range_map rank m)) = distinct (map fst m)"
proof -
  have "mset (map fst (range_map rank m)) = mset (map fst m)"
    by simp
  then show ?thesis
    by (rule mset_eq_imp_distinct_iff)
qed

subsection \<open>The registered descriptors\<close>

lemma setDescriptors_keeps:
  "setDescriptors (map (\<lambda>(n, h, ls). SetDescriptor n h ls) regs) d0 = Inr d \<Longrightarrow>
   descriptors d0 k = Some v \<Longrightarrow> descriptors d k = Some v"
proof (induction regs arbitrary: d0)
  case Nil
  then show ?case by simp
next
  case (Cons r regs)
  obtain n h ls where r: "r = (n, h, ls)" by (cases r)
  from Cons.prems(1) obtain d1 where d1: "SetDescriptor n h ls d0 = Inr d1"
    and rest: "setDescriptors (map (\<lambda>(n, h, ls). SetDescriptor n h ls) regs) d1 = Inr d"
    by (auto simp: r split: sum.splits)
  from d1 Cons.prems(2) have "descriptors d1 k = Some v"
    by (auto simp: SetDescriptor_def split: option.splits)
  with Cons.IH[OF rest] show ?case by simp
qed

lemma setDescriptors_registered:
  "setDescriptors (map (\<lambda>(n, h, ls). SetDescriptor n h ls) regs) d0 = Inr d \<Longrightarrow>
   (n, h, ls) \<in> set regs \<Longrightarrow> isRegistered d (subsystem d0) n ls"
proof (induction regs arbitrary: d0)
  case Nil
  then show ?case by simp
next
  case (Cons r regs)
  obtain n' h' ls' where r: "r = (n', h', ls')" by (cases r)
  from Cons.prems(1) obtain d1 where d1: "SetDescriptor n' h' ls' d0 = Inr d1"
    and rest: "setDescriptors (map (\<lambda>(n, h, ls). SetDescriptor n h ls) regs) d1 = Inr d"
    by (auto simp: r split: sum.splits)
  from d1 have sub: "subsystem d1 = subsystem d0"
    by (auto simp: SetDescriptor_def split: option.splits)
  show ?case
  proof (cases "(n, h, ls) \<in> set regs")
    case True
    from Cons.IH[OF rest True] sub show ?thesis by simp
  next
    case False
    with Cons.prems(2) r have eq: "n' = n" "h' = h" "ls' = ls" by auto
    from d1 have "descriptors d1 n = Some \<lparr>Desc_subsystem = subsystem d0, Desc_name = n,
        Desc_help = h, Desc_variableLabels = ls\<rparr>"
      by (auto simp: SetDescriptor_def eq split: option.splits)
    from setDescriptors_keeps[OF rest this] show ?thesis
      by (simp add: isRegistered_def registered_def)
  qed
qed

lemma pacemaker_registered:
  assumes "pacemaker_NewCollector crmMonPath cibAdminPath chk = Inr c"
  shows "isRegistered (pacemaker_DefaultCollector c) ''pacemaker'' ''nodes''
           [''node'', ''type'', ''status'']"
    and "isRegistered (pacemaker_DefaultCollector c) ''pacemaker'' ''resources''
           [''node'', ''resource'', ''role'', ''managed'', ''status'']"
    and "isRegistered (pacemaker_DefaultCollector c) ''pacemaker'' ''stonith_enabled'' []"
    and "isRegistered (pacemaker_DefaultCollector c) ''pacemaker'' ''fail_count''
           [''node'', ''resource'']"
    and "isRegistered (pacemaker_DefaultCollector c) ''pacemaker'' ''migration_threshold''
           [''node'', ''resource'']"
    and "isRegistered (pacemaker_DefaultCollector c) ''pacemaker'' ''config_last_change'' []"
    and "isRegistered (pacemaker_DefaultCollector c) ''pacemaker'' ''location_constraints''
           [''constraint'', ''node'', ''resource'', ''role'']"
proof -
  let ?regs = "[(''nodes'', ''The nodes in the cluster; one line per name, per status'',
                [''node'', ''type'', ''status'']),
              (''resources'', ''The resources in the cluster; one line per id, per status'',
                [''node'', ''resource'', ''role'', ''managed'', ''status'']),
              (''stonith_enabled'', ''Whether or not stonith is enabled'', []),
              (''fail_count'', ''The Fail count number per node and resource id'',
                [''node'', ''resource'']),
              (''migration_threshold'',
                ''The migration_threshold number per node and resource id'',
                [''node'', ''resource'']),
              (''config_last_change'',
                ''The timestamp of the last change of the cluster configuration'', []),
              (''location_constraints'',
                ''Resource location constraints. The value indicates the score.'',
                [''constraint'', ''node'', ''resource'', ''role''])]"
  from assms obtain d where
    d: "setDescriptors (map (\<lambda>(n, h, ls). SetDescriptor n h ls) ?regs)
          (NewDefaultCollector ''pacemaker'') = Inr d"
    and c: "pacemaker_DefaultCollector c = d"
    unfolding pacemaker_NewCollector_def
    by (auto simp del: setDescriptors.simps split: option.splits sum.splits)
  have sub: "subsystem (NewDefaultCollector ''pacemaker'') = ''pacemaker''"
    by (simp add: NewDefaultCollector_def)
  note reg = setDescriptors_registered[OF d, unfolded sub, folded c]
  show "isRegistered (pacemaker_DefaultCollector c) ''pacemaker'' ''nodes''
           [''node'', ''type'', ''status'']"
    by (rule reg) simp
  show "isRegistered (pacemaker_DefaultCollector c) ''pacemaker'' ''resources''
           [''node'', ''resource'', ''role'', ''managed'', ''status'']"
    by (rule reg) simp
  show "isRegistered (pacemaker_DefaultCollector c) ''pacemaker'' ''stonith_enabled'' []"
    by (rule reg) simp
  show "isRegistered (pacemaker_DefaultCollector c) ''pacemaker'' ''fail_count''
           [''node'', ''resource'']"
    by (rule reg) simp
  show "isRegistered (pacemaker_DefaultCollector c) ''pacemaker'' ''migration_threshold''
           [''node'', ''resource'']"
    by (rule reg) simp
  show "isRegistered (pacemaker_DefaultCollector c) ''pacemaker'' ''config_last_change'' []"
    by (rule reg) simp
  show "isRegistered (pacemaker_DefaultCollector c) ''pacemaker'' ''location_constraints''
           [''constraint'', ''node'', ''resource'', ''role'']"
    by (rule reg) simp
qed

lemma drbd_registered:
  assumes "drbd_NewCollector setupPath splitBrainPath chk = Inr c"
  shows "isRegistered (drbd_DefaultCollector c) ''drbd'' ''resources''
           [''resource'', ''role'', ''volume'', ''disk_state'']"
    and "isRegistered (drbd_DefaultCollector c) ''drbd'' ''written'' [''resource'', ''volume'']"
    and "isRegistered (drbd_DefaultCollector c) ''drbd'' ''read'' [''resource'', ''volume'']"
    and "isRegistered (drbd_DefaultCollector c) ''drbd'' ''al_writes'' [''resource'', ''volume'']"
    and "isRegistered (drbd_DefaultCollector c) ''drbd'' ''bm_writes'' [''resource'', ''volume'']"
    and "isRegistered (drbd_DefaultCollector c) ''drbd'' ''upper_pending''
           [''resource'', ''volume'']"
    and "isRegistered (drbd_DefaultCollector c) ''drbd'' ''lower_pending''
           [''resource'', ''volume'']"
    and "isRegistered (drbd_DefaultCollector c) ''drbd'' ''quorum'' [''resource'', ''volume'']"
    and "isRegistered (drbd_DefaultCollector c) ''drbd'' ''connections''
           [''resource'', ''peer_node_id'', ''peer_role'', ''volume'', ''peer_disk_state'']"
    and "isRegistered (drbd_DefaultCollector c) ''drbd'' ''connections_sync''
           [''resource'', ''peer_node_id'', ''volume'']"
    and "isRegistered (drbd_DefaultCollector c) ''drbd'' ''connections_received''
           [''resource'', ''peer_node_id'', ''volume'']"
    and "isRegistered (drbd_DefaultCollector c) ''drbd'' ''connections_sent''
           [''resource'', ''peer_node_id'', ''volume'']"
    and "isRegistered (drbd_DefaultCollector c) ''drbd'' ''connections_pending''
           [''resource'', ''peer_node_id'', ''volume'']"
    and "isRegistered (drbd_DefaultCollector c) ''drbd'' ''connections_unacked''
           [''resource'', ''peer_node_id'', ''volume'']"
    and "isRegistered (drbd_DefaultCollector c) ''drbd'' ''split_brain''
           [''resource'', ''volume'']"
proof -
  let ?regs = "[(''resources'', ''The DRBD resources; 1 line per name, per volume'',
                [''resource'', ''role'', ''volume'', ''disk_state'']),
              (''written'', ''KiB written to DRBD; 1 line per res, per volume'',
                [''resource'', ''volume'']),
              (''read'', ''KiB read from DRBD; 1 line per res, per volume'',
                [''resource'', ''volume'']),
              (''al_writes'', ''Writes to activity log; 1 line per res, per volume'',
                [''resource'', ''volume'']),
              (''bm_writes'', ''Writes to bitmap; 1 line per res, per volume'',
                [''resource'', ''volume'']),
              (''upper_pending'', ''Upper pending; 1 line per res, per volume'',
                [''resource'', ''volume'']),
              (''lower_pending'', ''Lower pending; 1 line per res, per volume'',
                [''resource'', ''volume'']),
              (''quorum'', ''Quorum status per resource and per volume'',
                [''resource'', ''volume'']),
              (''connections'',
                ''The DRBD resource connections; 1 line per per resource, per peer_node_id'',
                [''resource'', ''peer_node_id'', ''peer_role'', ''volume'', ''peer_disk_state'']),
              (''connections_sync'',
                ''The in sync percentage value for DRBD resource connections'',
                [''resource'', ''peer_node_id'', ''volume'']),
              (''connections_received'', ''KiB received per connection'',
                [''resource'', ''peer_node_id'', ''volume'']),
              (''connections_sent'', ''KiB sent per connection'',
                [''resource'', ''peer_node_id'', ''volume'']),
              (''connections_pending'', ''Pending value per connection'',
                [''resource'', ''peer_node_id'', ''volume'']),
              (''connections_unacked'', ''Unacked value per connection'',
                [''resource'', ''peer_node_id'', ''volume'']),
              (''split_brain'',
                ''Whether a split brain has been detected; 1 line per resource, per volume.'',
                [''resource'', ''volume''])]"
  from assms obtain d where
    d: "setDescriptors (map (\<lambda>(n, h, ls). SetDescriptor n h ls) ?regs)
          (NewDefaultCollector ''drbd'') = Inr d"
    and c: "drbd_DefaultCollector c = d"
    unfolding drbd_NewCollector_def
    by (auto simp del: setDescriptors.simps split: option.splits sum.splits)
  have sub: "subsystem (NewDefaultCollector ''drbd'') = ''drbd''"
    by (simp add: NewDefaultCollector_def)
  note reg = setDescriptors_registered[OF d, unfolded sub, folded c]
  show "isRegistered (drbd_DefaultCollector c) ''drbd'' ''resources''
           [''resource'', ''role'', ''volume'', ''disk_state'']"
    by (rule reg) simp
  show "isRegistered (drbd_DefaultCollector c) ''drbd'' ''written'' [''resource'', ''volume'']"
    by (rule reg) simp
  show "isRegistered (drbd_DefaultCollector c) ''drbd'' ''read'' [''resource'', ''volume'']"
    by (rule reg) simp
  show "isRegistered (drbd_DefaultCollector c) ''drbd'' ''al_writes'' [''resource'', ''volume'']"
    by (rule reg) simp
  show "isRegistered (drbd_DefaultCollector c) ''drbd'' ''bm_writes'' [''resource'', ''volume'']"
    by (rule reg) simp
  show "isRegistered (drbd_DefaultCollector c) ''drbd'' ''upper_pending''
           [''resource'', ''volume'']"
    by (rule reg) simp
  show "isRegistered (drbd_DefaultCollector c) ''drbd'' ''lower_pending''
           [''resource'', ''volume'']"
    by (rule reg) simp
  show "isRegistered (drbd_DefaultCollector c) ''drbd'' ''quorum'' [''resource'', ''volume'']"
    by (rule reg) simp
  show "isRegistered (drbd_DefaultCollector c) ''drbd'' ''connections''
           [''resource'', ''peer_node_id'', ''peer_role'', ''volume'', ''peer_disk_state'']"
    by (rule reg) simp
  show "isRegistered (drbd_DefaultCollector c) ''drbd'' ''connections_sync''
           [''resource'', ''peer_node_id'', ''volume'']"
    by (rule reg) simp
  show "isRegistered (drbd_DefaultCollector c) ''drbd'' ''connections_received''
           [''resource'', ''peer_node_id'', ''volume'']"
    by (rule reg) simp
  show "isRegistered (drbd_DefaultCollector c) ''drbd'' ''connections_sent''
           [''resource'', ''peer_node_id'', ''volume'']"
    by (rule reg) simp
  show "isRegistered (drbd_DefaultCollector c) ''drbd'' ''connections_pending''
           [''resource'', ''peer_node_id'', ''volume'']"
    by (rule reg) simp
  show "isRegistered (drbd_DefaultCollector c) ''drbd'' ''connections_unacked''
           [''resource'', ''peer_node_id'', ''volume'']"
    by (rule reg) simp
  show "isRegistered (drbd_DefaultCollector c) ''drbd'' ''split_brain''
           [''resource'', ''volume'']"
    by (rule reg) simp
qed

lemma pacemaker_NewCollector_ok:
  "\<exists>c. pacemaker_NewCollector crmMonPath cibAdminPath None = Inr c"
  by (simp add: pacemaker_NewCollector_def SetDescriptor_def NewDefaultCollector_def)

lemma drbd_NewCollector_ok:
  "\<exists>c. drbd_NewCollector setupPath splitBrainPath None = Inr c"
  by (simp add: drbd_NewCollector_def SetDescriptor_def NewDefaultCollector_def)

lemma examplePacemaker_ok:
  "pacemaker_NewCollector ''/usr/sbin/crm_mon'' ''/usr/sbin/cibadmin'' None = Inr examplePacemaker"
  using pacemaker_NewCollector_ok[of "''/usr/sbin/crm_mon''" "''/usr/sbin/cibadmin''"]
  by (auto simp add: examplePacemaker_def)

lemma exampleDrbd_ok:
  "drbd_NewCollector ''/sbin/drbdsetup'' ''/var/run/drbd/splitbrain'' None = Inr exampleDrbd"
  using drbd_NewCollector_ok[of "''/sbin/drbdsetup''" "''/var/run/drbd/splitbrain''"]
  by (auto simp add: exampleDrbd_def)

subsection \<open>The Pacemaker projections as lists\<close>

lemma recordNodeStatuses_eq:
  assumes "pacemaker_NewCollector crmMonPath cibAdminPath chk = Inr c"
  shows "recordNodeStatuses c rank node =
     (map (\<lambda>kv. metricOf (pacemaker_DefaultCollector c) ''nodes'' GaugeValue (Finite 1)
             [Node_Name node, nodeType node, fst kv])
        (filter snd (range_map rank (nodeStatuses node))), None)"
  unfolding recordNodeStatuses_def
  by (rule forEach_filter)
     (auto simp add: send_gauge[OF pacemaker_registered(1)[OF assms]])

lemma recordResource_eq:
  assumes "pacemaker_NewCollector crmMonPath cibAdminPath chk = Inr c"
  shows "recordResource c rank resource nodeName =
     (map (\<lambda>kv. metricOf (pacemaker_DefaultCollector c) ''resources'' GaugeValue (Finite 1)
             [nodeName, Resource_Id resource, ToLower (Resource_Role resource),
              FormatBool (Resource_Managed resource), fst kv])
        (filter snd (range_map rank (resourceStatuses resource))), None)"
  unfolding recordResource_def
  by (rule forEach_filter)
     (auto simp add: send_gauge[OF pacemaker_registered(2)[OF assms]])

lemma registered_name:
  "isRegistered d sub name labels \<Longrightarrow> Desc_name (registered d name) = name"
  by (simp add: isRegistered_def)

lemma registered_labels:
  "isRegistered d sub name labels \<Longrightarrow> Desc_variableLabels (registered d name) = labels"
  by (simp add: isRegistered_def)

lemma registered_lookup:
  "isRegistered d sub name labels \<Longrightarrow> descriptors d name = Some (registered d name)"
  by (simp add: isRegistered_def)

lemma filter_snd_nodeStatuses:
  "length (filter snd (nodeStatuses node)) =
   length (filter id [Node_Online node, Node_Standby node, Node_StandbyOnFail node,
     Node_Maintenance node, Node_Pending node, Node_Unclean node, Node_Shutdown node,
     Node_ExpectedUp node, Node_DC node])"
  by (simp add: nodeStatuses_def)

lemma distinct_nodeStatuses: "distinct (map fst (nodeStatuses node))"
  by (simp add: nodeStatuses_def)

lemma distinct_resourceStatuses: "distinct (map fst (resourceStatuses resource))"
  by (simp add: resourceStatuses_def)

lemma distinct_true_keys:
  "distinct (map fst m) \<Longrightarrow> distinct (map fst (filter snd (range_map rank m)))"
  by (simp add: distinct_map_filter distinct_keys_range_map)

lemma recordFailCounts_eq:
  assumes "pacemaker_NewCollector crmMonPath cibAdminPath chk = Inr c"
  shows "recordFailCounts c crmMon =
     (concat (map (\<lambda>node. map (\<lambda>resHistory.
         metricOf (pacemaker_DefaultCollector c) ''fail_count'' GaugeValue
           (failCount (ResourceHistory_FailCount resHistory))
           [NodeHistoryNode_Name node, ResourceHistory_Name resHistory])
         (NodeHistoryNode_ResourceHistory node)) (NodeHistory_Node crmMon)), None)"
  unfolding recordFailCounts_def
  by (intro forEach_pure forEach_map)
     (simp add: send_gauge[OF pacemaker_registered(4)[OF assms]])

lemma recordConstraints_eq:
  assumes "pacemaker_NewCollector crmMonPath cibAdminPath chk = Inr c"
  shows "recordConstraints c CIB =
     (map (\<lambda>constraint.
         metricOf (pacemaker_DefaultCollector c) ''location_constraints'' GaugeValue
           (constraintScore (RscLocation_Score constraint))
           [RscLocation_Id constraint, RscLocation_Node constraint,
            RscLocation_Resource constraint, ToLower (RscLocation_Role constraint)])
        (Configuration_Constraints_RscLocations CIB), None)"
  unfolding recordConstraints_def
  by (rule forEach_map) (simp add: send_gauge[OF pacemaker_registered(7)[OF assms]])


subsection \<open>Integers and their conversions\<close>

lemma float64_of_int_exact:
  "\<bar>n\<bar> \<le> 2 ^ 53 \<Longrightarrow> float64_of_int n = Finite (of_int n)"
  by (simp add: float64_of_int_def Let_def nat_le_iff)

lemma foldl_digits_ge:
  "n \<le> foldl (\<lambda>n c. n * 10 + digitVal c) n ds"
proof (induction ds arbitrary: n)
  case Nil
  then show ?case by simp
next
  case (Cons d ds)
  have "n \<le> n * 10 + digitVal d" by simp
  also have "\<dots> \<le> foldl (\<lambda>n c. n * 10 + digitVal c) (n * 10 + digitVal d) ds"
    by (rule Cons.IH)
  finally show ?case by simp
qed

lemma parseUintLoop_digits:
  "list_all isDigit ds \<Longrightarrow> foldl (\<lambda>n c. n * 10 + digitVal c) n ds \<le> maxUint64 \<Longrightarrow>
   parseUintLoop n ds = (foldl (\<lambda>n c. n * 10 + digitVal c) n ds, None)"
proof (induction ds arbitrary: n)
  case Nil
  then show ?case by simp
next
  case (Cons d ds)
  let ?n' = "n * 10 + digitVal d"
  from Cons.prems(2) have bound: "foldl (\<lambda>n c. n * 10 + digitVal c) ?n' ds \<le> maxUint64"
    by simp
  with foldl_digits_ge[of ?n' ds] have le: "?n' \<le> maxUint64"
    by (rule le_trans)
  then have "n * 10 \<le> maxUint64" by simp
  then have "n \<le> maxUint64 div 10" by (simp add: less_eq_div_iff_mult_less_eq)
  then have cut: "\<not> maxUint64 div 10 + 1 \<le> n" by simp
  from Cons.prems(1) have d: "isDigit d" and ds: "list_all isDigit ds" by simp_all
  from Cons.IH[OF ds bound] d cut le show ?case by simp
qed

lemma parseUintLoop_nondigit:
  "\<not> list_all isDigit s \<Longrightarrow>
   foldl (\<lambda>n c. n * 10 + digitVal c) n (takeWhile isDigit s) \<le> maxUint64 \<Longrightarrow>
   parseUintLoop n s = (0, Some ErrSyntax)"
proof (induction s arbitrary: n)
  case Nil
  then show ?case by simp
next
  case (Cons d s)
  show ?case
  proof (cases "isDigit d")
    case False
    then show ?thesis by simp
  next
    case True
    let ?n' = "n * 10 + digitVal d"
    from Cons.prems(2) True
    have bound: "foldl (\<lambda>n c. n * 10 + digitVal c) ?n' (takeWhile isDigit s) \<le> maxUint64"
      by simp
    with foldl_digits_ge[of ?n' "takeWhile isDigit s"] have le: "?n' \<le> maxUint64"
      by (rule le_trans)
    then have "n * 10 \<le> maxUint64" by simp
    then have "n \<le> maxUint64 div 10" by (simp add: less_eq_div_iff_mult_less_eq)
    then have cut: "\<not> maxUint64 div 10 + 1 \<le> n" by simp
    from Cons.prems(1) True have "\<not> list_all isDigit s" by simp
    from Cons.IH[OF this bound] True cut le show ?thesis by simp
  qed
qed

lemma Atoi_in_range:
  assumes wf: "signedDecimal s"
    and lo: "- (2 ^ 63) \<le> signedValue s" and hi: "signedValue s < 2 ^ 63"
  shows "Atoi s = (signedValue s, None)"
proof -
  from wf have body: "unsignedPart s \<noteq> []" and digits: "list_all isDigit (unsignedPart s)"
    by (simp_all add: signedDecimal_def)
  from body have ne: "s \<noteq> []" by (auto simp: unsignedPart_def)
  let ?un = "decimalValue (unsignedPart s)"
  from lo hi have "int ?un \<le> 2 ^ 63"
    by (simp add: signedValue_def split: if_splits)
  then have "?un \<le> 2 ^ 63"
    by (metis of_nat_le_iff of_nat_numeral of_nat_power)
  then have "?un \<le> maxUint64" by (simp add: maxUint64_def)
  with digits have pu: "ParseUint (unsignedPart s) = (?un, None)"
    using body parseUintLoop_digits[of "unsignedPart s" 0]
    by (simp add: ParseUint_def decimalValue_def)
  show ?thesis
  proof (cases "hd s = CHR ''-''")
    case True
    with lo ne have "int ?un \<le> 2 ^ 63" by (simp add: signedValue_def)
    then have "\<not> 2 ^ 63 < ?un"
      by (metis not_less of_nat_le_iff of_nat_numeral of_nat_power)
    with True ne pu show ?thesis
      by (simp add: Atoi_def ParseInt_def Let_def unsignedPart_def signedValue_def)
  next
    case False
    with hi ne have "int ?un < 2 ^ 63" by (simp add: signedValue_def)
    then have "\<not> 2 ^ 63 \<le> ?un"
      by (metis not_le of_nat_less_iff of_nat_numeral of_nat_power)
    with False ne pu show ?thesis
      by (auto simp add: Atoi_def ParseInt_def Let_def unsignedPart_def signedValue_def)
  qed
qed

lemma Atoi_malformed:
  assumes nwf: "\<not> signedDecimal s"
    and bound: "decimalValue (takeWhile isDigit (unsignedPart s)) \<le> maxUint64"
  shows "Atoi s = (0, Some ErrSyntax)"
proof (cases "unsignedPart s = []")
  case True
  then show ?thesis
    by (auto simp add: Atoi_def ParseInt_def ParseUint_def Let_def unsignedPart_def
        split: if_splits)
next
  case False
  with nwf have "\<not> list_all isDigit (unsignedPart s)"
    by (simp add: signedDecimal_def)
  from parseUintLoop_nondigit[OF this, of 0] bound False
  have "ParseUint (unsignedPart s) = (0, Some ErrSyntax)"
    by (simp add: ParseUint_def decimalValue_def)
  then show ?thesis
    by (auto simp add: Atoi_def ParseInt_def Let_def unsignedPart_def)
qed

subsection \<open>Splitting strings\<close>

lemma count_list_take_le: "count_list (take n s) c \<le> count_list s c"
proof -
  have "count_list s c = count_list (take n s) c + count_list (drop n s) c"
    by (metis append_take_drop_id count_list_append)
  then show ?thesis by simp
qed

text \<open>A string with fewer copies of some byte than the separator holds no separator.\<close>

lemma splitFrom_absent:
  "count_list s c < count_list sep c \<Longrightarrow> splitFrom sep cur s = [rev cur @ s]"
proof (induction s arbitrary: cur)
  case Nil
  then show ?case by simp
next
  case (Cons x xs)
  have "take (length sep) (x # xs) \<noteq> sep"
  proof
    assume "take (length sep) (x # xs) = sep"
    then have "count_list sep c \<le> count_list (x # xs) c"
      by (metis count_list_take_le)
    with Cons.prems show False by simp
  qed
  moreover from Cons.prems have "count_list xs c < count_list sep c"
    by (simp split: if_splits)
  ultimately show ?case
    using Cons.IH[of "x # cur"] by simp
qed

lemma Split_absent:
  "count_list s c < count_list sep c \<Longrightarrow> Split s sep = [s]"
  using splitFrom_absent[of s c sep "[]"] by (auto simp add: Split_def)




lemma Split_marker:
  assumes "count_list t CHR ''-'' < 4"
  shows "Split (''drbd-split-brain-detected-'' @ t) ''drbd-split-brain-detected-'' = [[], t]"
proof -
  have "count_list t CHR ''-'' < count_list ''drbd-split-brain-detected-'' CHR ''-''"
    using assms by simp
  from splitFrom_absent[OF this, of "[]"] show ?thesis
    by (simp add: Split_def)
qed



subsection \<open>The DRBD projections as lists\<close>

lemma recordDevice_eq:
  assumes "drbd_NewCollector setupPath splitBrainPath chk = Inr c"
  shows "recordDevice c resource device =
     ([metricOf (drbd_DefaultCollector c) ''resources'' GaugeValue (Finite 1)
         [drbdStatus_Name resource, drbdStatus_Role resource, Itoa (Device_Volume device),
          ToLower (Device_DiskState device)],
       metricOf (drbd_DefaultCollector c) ''written'' GaugeValue
         (float64_of_int (Device_Written device))
         [drbdStatus_Name resource, Itoa (Device_Volume device)],
       metricOf (drbd_DefaultCollector c) ''read'' GaugeValue
         (float64_of_int (Device_Read device))
         [drbdStatus_Name resource, Itoa (Device_Volume device)],
       metricOf (drbd_DefaultCollector c) ''al_writes'' GaugeValue
         (float64_of_int (Device_AlWrites device))
         [drbdStatus_Name resource, Itoa (Device_Volume device)],
       metricOf (drbd_DefaultCollector c) ''bm_writes'' GaugeValue
         (float64_of_int (Device_BmWrites device))
         [drbdStatus_Name resource, Itoa (Device_Volume device)],
       metricOf (drbd_DefaultCollector c) ''upper_pending'' GaugeValue
         (float64_of_int (Device_UpPending device))
         [drbdStatus_Name resource, Itoa (Device_Volume device)],
       metricOf (drbd_DefaultCollector c) ''lower_pending'' GaugeValue
         (float64_of_int (Device_LoPending device))
         [drbdStatus_Name resource, Itoa (Device_Volume device)],
       metricOf (drbd_DefaultCollector c) ''quorum'' GaugeValue
         (if Device_Quorum device then Finite 1 else Finite 0)
         [drbdStatus_Name resource, Itoa (Device_Volume device)]], None)"
  unfolding recordDevice_def Let_def
  by (simp add: skip_def
      send_gauge[OF drbd_registered(1)[OF assms]] send_gauge[OF drbd_registered(2)[OF assms]]
      send_gauge[OF drbd_registered(3)[OF assms]] send_gauge[OF drbd_registered(4)[OF assms]]
      send_gauge[OF drbd_registered(5)[OF assms]] send_gauge[OF drbd_registered(6)[OF assms]]
      send_gauge[OF drbd_registered(7)[OF assms]] send_gauge[OF drbd_registered(8)[OF assms]])

lemma recordPeerDevice_eq:
  assumes "drbd_NewCollector setupPath splitBrainPath chk = Inr c"
  shows "recordPeerDevice c resource conn peerDev =
     ([metricOf (drbd_DefaultCollector c) ''connections'' GaugeValue (Finite 1)
         [drbdStatus_Name resource, Itoa (Connection_PeerNodeID conn),
          Connection_PeerRole conn, Itoa (PeerDevice_Volume peerDev),
          ToLower (PeerDevice_PeerDiskState peerDev)],
       metricOf (drbd_DefaultCollector c) ''connections_sync'' GaugeValue
         (PeerDevice_PercentInSync peerDev)
         [drbdStatus_Name resource, Itoa (Connection_PeerNodeID conn),
          Itoa (PeerDevice_Volume peerDev)],
       metricOf (drbd_DefaultCollector c) ''connections_received'' GaugeValue
         (float64_of_int (PeerDevice_Received peerDev))
         [drbdStatus_Name resource, Itoa (Connection_PeerNodeID conn),
          Itoa (PeerDevice_Volume peerDev)],
       metricOf (drbd_DefaultCollector c) ''connections_sent'' GaugeValue
         (float64_of_int (PeerDevice_Sent peerDev))
         [drbdStatus_Name resource, Itoa (Connection_PeerNodeID conn),
          Itoa (PeerDevice_Volume peerDev)],
       metricOf (drbd_DefaultCollector c) ''connections_pending'' GaugeValue
         (float64_of_int (PeerDevice_Pending peerDev))
         [drbdStatus_Name resource, Itoa (Connection_PeerNodeID conn),
          Itoa (PeerDevice_Volume peerDev)],
       metricOf (drbd_DefaultCollector c) ''connections_unacked'' GaugeValue
         (float64_of_int (PeerDevice_Unacked peerDev))
         [drbdStatus_Name resource, Itoa (Connection_PeerNodeID conn),
          Itoa (PeerDevice_Volume peerDev)]], None)"
  unfolding recordPeerDevice_def Let_def
  by (simp add: skip_def
      send_gauge[OF drbd_registered(9)[OF assms]] send_gauge[OF drbd_registered(10)[OF assms]]
      send_gauge[OF drbd_registered(11)[OF assms]] send_gauge[OF drbd_registered(12)[OF assms]]
      send_gauge[OF drbd_registered(13)[OF assms]] send_gauge[OF drbd_registered(14)[OF assms]])

lemma recordDrbdResource_eq:
  assumes "drbd_NewCollector setupPath splitBrainPath chk = Inr c"
  shows "recordDrbdResource c resource =
     (concat (map (\<lambda>device. fst (recordDevice c resource device))
        (drbdStatus_Devices resource)) @
      concat (map (\<lambda>conn. concat (map (\<lambda>peerDev. fst (recordPeerDevice c resource conn peerDev))
        (Connection_PeerDevices conn))) (drbdStatus_Connections resource)), None)"
proof -
  have devs: "forEach (drbdStatus_Devices resource) (recordDevice c resource) =
      (concat (map (\<lambda>device. fst (recordDevice c resource device))
        (drbdStatus_Devices resource)), None)"
    by (rule forEach_pure) (simp add: recordDevice_eq[OF assms])
  have peers: "(if length (Connection_PeerDevices conn) = 0 then skip
       else forEach (Connection_PeerDevices conn) (recordPeerDevice c resource conn)) =
      (concat (map (\<lambda>peerDev. fst (recordPeerDevice c resource conn peerDev))
        (Connection_PeerDevices conn)), None)" for conn
  proof -
    have "forEach (Connection_PeerDevices conn) (recordPeerDevice c resource conn) =
      (concat (map (\<lambda>peerDev. fst (recordPeerDevice c resource conn peerDev))
        (Connection_PeerDevices conn)), None)"
      by (rule forEach_pure) (simp add: recordPeerDevice_eq[OF assms])
    then show ?thesis by (simp add: skip_def)
  qed
  have conns: "(if length (drbdStatus_Connections resource) = 0 then skip
       else forEach (drbdStatus_Connections resource)
          (\<lambda>conn. if length (Connection_PeerDevices conn) = 0 then skip
             else forEach (Connection_PeerDevices conn) (recordPeerDevice c resource conn))) =
      (concat (map (\<lambda>conn. concat (map (\<lambda>peerDev.
          fst (recordPeerDevice c resource conn peerDev))
        (Connection_PeerDevices conn))) (drbdStatus_Connections resource)), None)"
  proof -
    have "forEach (drbdStatus_Connections resource)
          (\<lambda>conn. if length (Connection_PeerDevices conn) = 0 then skip
             else forEach (Connection_PeerDevices conn) (recordPeerDevice c resource conn)) =
      (concat (map (\<lambda>conn. concat (map (\<lambda>peerDev.
          fst (recordPeerDevice c resource conn peerDev))
        (Connection_PeerDevices conn))) (drbdStatus_Connections resource)), None)"
      by (rule forEach_pure) (rule peers)
    then show ?thesis by (simp add: skip_def)
  qed
  show ?thesis
    unfolding recordDrbdResource_def devs conns by simp
qed

text \<open>The pass after the split-brain markers, for each way the status can come out.\<close>

lemma drbd_Collect_failed:
  "drbd_Collect c unmarshal files (Inl err) = recordDrbdSplitBrainMetric c files"
  "unmarshal drbdStatusRaw = Inl err \<Longrightarrow>
   drbd_Collect c unmarshal files (Inr drbdStatusRaw) = recordDrbdSplitBrainMetric c files"
  by (simp_all add: drbd_Collect_def parseDrbdStatus_def)

lemma drbd_Collect_parsed:
  assumes "drbd_NewCollector setupPath splitBrainPath chk = Inr c"
    and "unmarshal drbdStatusRaw = Inr drbdDev"
  shows "drbd_Collect c unmarshal files (Inr drbdStatusRaw) =
     andThen (recordDrbdSplitBrainMetric c files)
       (concat (map (\<lambda>resource. fst (recordDrbdResource c resource)) drbdDev), None)"
proof -
  have "forEach drbdDev (recordDrbdResource c) =
      (concat (map (\<lambda>resource. fst (recordDrbdResource c resource)) drbdDev), None)"
    by (rule forEach_pure) (simp add: recordDrbdResource_eq[OF assms(1)])
  then show ?thesis
    by (simp add: drbd_Collect_def parseDrbdStatus_def assms(2))
qed

subsection \<open>The split-brain markers\<close>

lemma forEach_panics:
  "x \<in> set xs \<Longrightarrow> snd (body x) \<noteq> None \<Longrightarrow> snd (forEach xs body) \<noteq> None"
  by (induction xs) (auto simp add: andThen_def split: option.splits)

lemma recordDrbdSplitBrainMetric_emits:
  assumes "drbd_NewCollector setupPath splitBrainPath chk = Inr c"
    and "Q None" and "Q (Some IndexOutOfRange)"
    and "\<And>res vol. P (metricOf (drbd_DefaultCollector c) ''split_brain'' GaugeValue (Finite 1)
           [res, vol])"
  shows "emits Q P (recordDrbdSplitBrainMetric c files)"
  unfolding recordDrbdSplitBrainMetric_def Let_def
proof (rule emits_forEach)
  show "Q None" by fact
next
  fix f
  have sent: "emits Q P (send (MakeGaugeMetric (drbd_DefaultCollector c) ''split_brain''
      (Finite 1) [res, vol]))" for res vol
    by (simp add: send_gauge[OF drbd_registered(15)[OF assms(1)]] emits_def assms(2,4))
  have "emits Q P
     (indexThen (Split f ''drbd-split-brain-detected-'') 1
        (\<lambda>resAndVolume.
           if length (Split resAndVolume ''-'') \<noteq> 2 then skip
           else
             indexThen (Split resAndVolume ''-'') 0
               (\<lambda>res. indexThen (Split resAndVolume ''-'') 1
                  (\<lambda>vol. send (MakeGaugeMetric (drbd_DefaultCollector c) ''split_brain''
                            (Finite 1) [res, vol])))))"
    by (intro emits_indexThen assms(3))
       (simp add: emits_skip assms(2) emits_indexThen assms(3) sent)
  then show "emits Q P
     (if Glob_splitBrain (drbdSplitBrainPath c) files = [] then skip
      else
        indexThen (Split f ''drbd-split-brain-detected-'') 1
          (\<lambda>resAndVolume.
             if length (Split resAndVolume ''-'') \<noteq> 2 then skip
             else
               indexThen (Split resAndVolume ''-'') 0
                 (\<lambda>res. indexThen (Split resAndVolume ''-'') 1
                    (\<lambda>vol. send (MakeGaugeMetric (drbd_DefaultCollector c) ''split_brain''
                              (Finite 1) [res, vol])))))"
    by (simp add: emits_skip assms(2))
qed

text \<open>
  A directory that holds one entry, its name the prefix followed by a suffix with
  fewer than four hyphens (so that the prefix does not occur in the suffix again).
\<close>

lemma recordDrbdSplitBrainMetric_single:
  assumes "drbd_NewCollector setupPath splitBrainPath chk = Inr c"
    and "count_list t CHR ''-'' < 4"
  shows "recordDrbdSplitBrainMetric c [''drbd-split-brain-detected-'' @ t] =
     (if length (Split t ''-'') = 2
      then [metricOf (drbd_DefaultCollector c) ''split_brain'' GaugeValue (Finite 1)
              [Split t ''-'' ! 0, Split t ''-'' ! 1]]
      else [], None)"
proof -
  have glob: "Glob_splitBrain dir [''drbd-split-brain-detected-'' @ t] \<noteq> []" for dir
    by (simp add: Glob_splitBrain_def)
  show ?thesis
    unfolding recordDrbdSplitBrainMetric_def Let_def forEach.simps Split_marker[OF assms(2)]
      glob[THEN eq_False[THEN iffD2]] if_False
    by (simp add: indexThen_def skip_def
        send_gauge[OF drbd_registered(15)[OF assms(1)]])
qed

subsection \<open>What a whole pass sends\<close>

lemma fst_andThen_pure: "fst (andThen (xs, None) b) = xs @ fst b"
  by (simp add: andThen_def)

lemma emits_map: "Q None \<Longrightarrow> (\<And>x. P (f x)) \<Longrightarrow> emits Q P (map f xs, None)"
  by (simp add: emits_def list_all_iff)

lemma emits_set: "emits Q P out \<Longrightarrow> m \<in> set (fst out) \<Longrightarrow> P m"
  by (simp add: emits_def list_all_iff)

lemma emits_snd: "emits Q P out \<Longrightarrow> Q (snd out)"
  by (simp add: emits_def)

lemma recordResource_emits:
  assumes "pacemaker_NewCollector crmMonPath cibAdminPath chk = Inr c"
    and "Q None"
    and "\<And>a b role m st. P (metricOf (pacemaker_DefaultCollector c) ''resources'' GaugeValue
           (Finite 1) [a, b, ToLower role, m, st])"
  shows "emits Q P (recordResource c rank resource nodeName)"
  unfolding recordResource_eq[OF assms(1)]
  by (rule emits_map) (rule assms(2), rule assms(3))

lemma recordNodes_emits:
  assumes "pacemaker_NewCollector crmMonPath cibAdminPath chk = Inr c"
    and "Q None"
    and "\<And>a b st. P (metricOf (pacemaker_DefaultCollector c) ''nodes'' GaugeValue
           (Finite 1) [a, b, st])"
    and "\<And>a b role m st. P (metricOf (pacemaker_DefaultCollector c) ''resources'' GaugeValue
           (Finite 1) [a, b, ToLower role, m, st])"
  shows "emits Q P (recordNodes c order crmMon)"
  unfolding recordNodes_def
proof (rule emits_forEach)
  show "Q None" by fact
next
  fix x :: "nat \<times> crmmon_Node"
  obtain i node where x: "x = (i, node)" by (cases x)
  have statuses: "emits Q P (recordNodeStatuses c (order (NodeStatuses i)) node)"
    unfolding recordNodeStatuses_eq[OF assms(1)]
    by (rule emits_map) (rule assms(2), rule assms(3))
  have "emits Q P (recordNodeResources c (\<lambda>j. order (NodeResourceStatuses i j)) node)"
    unfolding recordNodeResources_def Let_def
  proof (rule emits_forEach)
    show "Q None" by fact
  next
    fix y :: "nat \<times> crmmon_Resource"
    obtain j resource where y: "y = (j, resource)" by (cases y)
    have "emits Q P (recordResource c (order (NodeResourceStatuses i j)) resource
        (Node_Name node))"
      by (rule recordResource_emits[OF assms(1)]) (rule assms(2), rule assms(4))
    then show "emits Q P (case y of (j, resource) \<Rightarrow>
        recordResource c (order (NodeResourceStatuses i j)) resource (Node_Name node))"
      by (simp add: y)
  qed
  with statuses have "emits Q P
     (andThen (recordNodeStatuses c (order (NodeStatuses i)) node)
        (recordNodeResources c (\<lambda>j. order (NodeResourceStatuses i j)) node))"
    by (rule emits_andThen)
  then show "emits Q P (case x of (i, node) \<Rightarrow>
      andThen (recordNodeStatuses c (order (NodeStatuses i)) node)
        (recordNodeResources c (\<lambda>j. order (NodeResourceStatuses i j)) node))"
    by (simp add: x)
qed

lemma recordUngroupedResources_emits:
  assumes "pacemaker_NewCollector crmMonPath cibAdminPath chk = Inr c"
    and "Q None"
    and "\<And>a b role m st. P (metricOf (pacemaker_DefaultCollector c) ''resources'' GaugeValue
           (Finite 1) [a, b, ToLower role, m, st])"
  shows "emits Q P (recordUngroupedResources c order crmMon)"
  unfolding recordUngroupedResources_def
proof (rule emits_forEach)
  show "Q None" by fact
next
  fix y :: "nat \<times> crmmon_Resource"
  obtain j resource where y: "y = (j, resource)" by (cases y)
  have "emits Q P (recordResource c (order (UngroupedResourceStatuses j)) resource [])"
    by (rule recordResource_emits[OF assms(1)]) (rule assms(2), rule assms(3))
  then show "emits Q P (case y of (j, resource) \<Rightarrow>
      recordResource c (order (UngroupedResourceStatuses j)) resource [])"
    by (simp add: y)
qed

lemma recordMigrationThresholds_eq:
  assumes "pacemaker_NewCollector crmMonPath cibAdminPath chk = Inr c"
  shows "recordMigrationThresholds c crmMon =
     (concat (map (\<lambda>node. map (\<lambda>resHistory.
         metricOf (pacemaker_DefaultCollector c) ''migration_threshold'' GaugeValue
           (float64_of_int (ResourceHistory_MigrationThreshold resHistory))
           [NodeHistoryNode_Name node, ResourceHistory_Name resHistory])
         (NodeHistoryNode_ResourceHistory node)) (NodeHistory_Node crmMon)), None)"
  unfolding recordMigrationThresholds_def
  by (intro forEach_pure forEach_map)
     (simp add: send_gauge[OF pacemaker_registered(5)[OF assms]])

lemma recordResourceAgentsChanges_eq:
  assumes "pacemaker_NewCollector crmMonPath cibAdminPath chk = Inr c"
  shows "recordResourceAgentsChanges c parseANSIC crmMon =
     (case parseANSIC (Summary_LastChange_Time crmMon) of
        None \<Rightarrow> []
      | Some t \<Rightarrow> [metricOf (pacemaker_DefaultCollector c) ''config_last_change'' CounterValue
          (float64_of_int t) []], None)"
  unfolding recordResourceAgentsChanges_def
  by (simp add: send_counter[OF pacemaker_registered(6)[OF assms]] skip_def
      split: option.splits)

text \<open>The pass of the Pacemaker collector, for metric shapes \<open>P\<close> holds of.\<close>

lemma pacemaker_Collect_emits:
  assumes ok: "pacemaker_NewCollector crmMonPath cibAdminPath chk = Inr c"
    and Q: "Q None"
    and stonith: "\<And>v. P (metricOf (pacemaker_DefaultCollector c) ''stonith_enabled''
           GaugeValue v [])"
    and nodes: "\<And>a b st. P (metricOf (pacemaker_DefaultCollector c) ''nodes'' GaugeValue
           (Finite 1) [a, b, st])"
    and resources: "\<And>a b role m st. P (metricOf (pacemaker_DefaultCollector c) ''resources''
           GaugeValue (Finite 1) [a, b, ToLower role, m, st])"
    and fail: "\<And>v a b. P (metricOf (pacemaker_DefaultCollector c) ''fail_count''
           GaugeValue v [a, b])"
    and migration: "\<And>v a b. P (metricOf (pacemaker_DefaultCollector c)
           ''migration_threshold'' GaugeValue v [a, b])"
    and change: "\<And>v. P (metricOf (pacemaker_DefaultCollector c) ''config_last_change''
           CounterValue v [])"
    and location: "\<And>v a b e role. P (metricOf (pacemaker_DefaultCollector c)
           ''location_constraints'' GaugeValue v [a, b, e, ToLower role])"
  shows "emits Q P (pacemaker_Collect c order parseANSIC crmMonParse cibParse)"
proof (cases crmMonParse)
  case (Inl err)
  then show ?thesis
    by (simp add: pacemaker_Collect_def emits_skip Q)
next
  case crm: (Inr crmMon)
  show ?thesis
  proof (cases cibParse)
    case (Inl err)
    with crm show ?thesis
      by (simp add: pacemaker_Collect_def emits_skip Q)
  next
    case cib: (Inr CIB)
    have 1: "emits Q P (send (MakeGaugeMetric (pacemaker_DefaultCollector c) ''stonith_enabled''
        v []))" for v
      unfolding send_gauge[OF pacemaker_registered(3)[OF ok], of "[]", simplified]
      by (simp add: emits_def Q stonith)
    have 2: "emits Q P (recordNodes c order crmMon)"
      by (rule recordNodes_emits[OF ok]) (rule Q, rule nodes, rule resources)
    have 3: "emits Q P (recordUngroupedResources c order crmMon)"
      by (rule recordUngroupedResources_emits[OF ok]) (rule Q, rule resources)
    have 4: "emits Q P (recordFailCounts c crmMon)"
      unfolding recordFailCounts_eq[OF ok]
      by (simp add: emits_def Q list_all_iff fail)
    have 5: "emits Q P (recordMigrationThresholds c crmMon)"
      unfolding recordMigrationThresholds_eq[OF ok]
      by (simp add: emits_def Q list_all_iff migration)
    have 6: "emits Q P (recordResourceAgentsChanges c parseANSIC crmMon)"
      unfolding recordResourceAgentsChanges_eq[OF ok]
      by (simp add: emits_def Q change split: option.splits)
    have 7: "emits Q P (recordConstraints c CIB)"
      unfolding recordConstraints_eq[OF ok]
      by (rule emits_map) (rule Q, rule location)
    have "emits Q P (seqs
        [send (MakeGaugeMetric (pacemaker_DefaultCollector c) ''stonith_enabled''
           (if Summary_ClusterOptions_StonithEnabled crmMon then Finite 1 else Finite 0) []),
         recordNodes c order crmMon,
         recordUngroupedResources c order crmMon,
         recordFailCounts c crmMon,
         recordMigrationThresholds c crmMon,
         recordResourceAgentsChanges c parseANSIC crmMon,
         recordConstraints c CIB])"
      unfolding seqs.simps
      by (intro emits_andThen emits_skip 1 2 3 4 5 6 7 Q)
    then show ?thesis
      by (simp add: pacemaker_Collect_def crm cib Let_def)
  qed
qed

text \<open>The first metric of a pass of the Pacemaker collector over two parsed snapshots.\<close>

lemma pacemaker_Collect_first:
  assumes "pacemaker_NewCollector crmMonPath cibAdminPath chk = Inr c"
  shows "\<exists>rest. fst (pacemaker_Collect c order parseANSIC (Inr crmMon) (Inr CIB)) =
     metricOf (pacemaker_DefaultCollector c) ''stonith_enabled'' GaugeValue
       (if Summary_ClusterOptions_StonithEnabled crmMon then Finite 1 else Finite 0) [] # rest"
  by (simp add: pacemaker_Collect_def Let_def fst_andThen_pure
      send_gauge[OF pacemaker_registered(3)[OF assms], of "[]", simplified])

text \<open>The pass of the DRBD collector, for metric shapes \<open>P\<close> holds of.\<close>

lemma drbd_Collect_emits:
  assumes ok: "drbd_NewCollector setupPath splitBrainPath chk = Inr c"
    and Q: "Q None" "Q (Some IndexOutOfRange)"
    and split: "\<And>res vol. P (metricOf (drbd_DefaultCollector c) ''split_brain'' GaugeValue
           (Finite 1) [res, vol])"
    and device: "\<And>resource device. list_all P (fst (recordDevice c resource device))"
    and peer: "\<And>resource conn peerDev.
           list_all P (fst (recordPeerDevice c resource conn peerDev))"
  shows "emits Q P (drbd_Collect c unmarshal files statusOutput)"
proof -
  have markers: "emits Q P (recordDrbdSplitBrainMetric c files)"
    by (rule recordDrbdSplitBrainMetric_emits[OF ok]) (rule Q(1), rule Q(2), rule split)
  have dev: "emits Q P (recordDevice c resource device)" for resource device
  proof -
    have "snd (recordDevice c resource device) = None"
      by (simp add: recordDevice_eq[OF ok])
    then show ?thesis
      unfolding emits_def by (intro conjI device) (simp add: Q(1))
  qed
  have pd: "emits Q P (recordPeerDevice c resource conn peerDev)" for resource conn peerDev
  proof -
    have "snd (recordPeerDevice c resource conn peerDev) = None"
      by (simp add: recordPeerDevice_eq[OF ok])
    then show ?thesis
      unfolding emits_def by (intro conjI peer) (simp add: Q(1))
  qed
  have devs: "emits Q P (forEach (drbdStatus_Devices resource) (recordDevice c resource))"
    for resource
    by (rule emits_forEach) (rule Q(1), rule dev)
  have pds: "emits Q P
     (if length (Connection_PeerDevices conn) = 0 then skip
      else forEach (Connection_PeerDevices conn) (recordPeerDevice c resource conn))"
    for resource conn
  proof (cases "length (Connection_PeerDevices conn) = 0")
    case True
    then show ?thesis by (simp add: emits_skip Q(1))
  next
    case False
    have "emits Q P (forEach (Connection_PeerDevices conn) (recordPeerDevice c resource conn))"
      by (rule emits_forEach) (rule Q(1), rule pd)
    with False show ?thesis by simp
  qed
  have conns: "emits Q P
     (if length (drbdStatus_Connections resource) = 0 then skip
      else
        forEach (drbdStatus_Connections resource)
          (\<lambda>conn.
             if length (Connection_PeerDevices conn) = 0 then skip
             else forEach (Connection_PeerDevices conn) (recordPeerDevice c resource conn)))"
    for resource
  proof (cases "length (drbdStatus_Connections resource) = 0")
    case True
    then show ?thesis by (simp add: emits_skip Q(1))
  next
    case False
    have "emits Q P
       (forEach (drbdStatus_Connections resource)
          (\<lambda>conn.
             if length (Connection_PeerDevices conn) = 0 then skip
             else forEach (Connection_PeerDevices conn) (recordPeerDevice c resource conn)))"
      by (rule emits_forEach) (rule Q(1), rule pds)
    with False show ?thesis by simp
  qed
  have resource: "emits Q P (recordDrbdResource c resource)" for resource
    unfolding recordDrbdResource_def by (rule emits_andThen) (rule devs, rule conns)
  have status: "emits Q P (forEach drbdDev (recordDrbdResource c))" for drbdDev
    by (rule emits_forEach) (rule Q(1), rule resource)
  have "emits Q P
     (case statusOutput of
        Inl err \<Rightarrow> skip
      | Inr drbdStatusRaw \<Rightarrow>
          (case parseDrbdStatus unmarshal drbdStatusRaw of
             Inl err \<Rightarrow> skip
           | Inr drbdDev \<Rightarrow> forEach drbdDev (recordDrbdResource c)))"
    by (simp add: emits_skip Q(1) status split: sum.splits)
  with markers show ?thesis
    unfolding drbd_Collect_def by (rule emits_andThen)
qed

lemmas pacemaker_names = pacemaker_registered[THEN registered_name]
lemmas pacemaker_labels = pacemaker_registered[THEN registered_labels]
lemmas pacemaker_lookups = pacemaker_registered[THEN registered_lookup]
lemmas drbd_names = drbd_registered[THEN registered_name]
lemmas drbd_labels = drbd_registered[THEN registered_labels]
lemmas drbd_lookups = drbd_registered[THEN registered_lookup]

subsection \<open>Lower case\<close>

lemma toLowerByte_not_upper: "\<not> isUpper (toLowerByte ch)"
proof (cases "isUpper ch")
  case False
  then show ?thesis by (simp add: toLowerByte_def)
next
  case True
  then have "(of_char ch + 32 :: nat) mod 256 = of_char ch + 32"
    by (simp add: isUpper_def)
  with True show ?thesis
    by (simp add: toLowerByte_def isUpper_def)
qed

lemma ToLower_not_upper: "ch \<in> set (ToLower s) \<Longrightarrow> \<not> isUpper ch"
  by (auto simp add: ToLower_def toLowerByte_not_upper)

text \<open>The last metric of a pass of the Pacemaker collector, when there is a constraint.\<close>

lemma fst_andThen_none: "snd a = None \<Longrightarrow> fst (andThen a b) = fst a @ fst b"
  by (simp add: andThen_def)

lemma pacemaker_Collect_last:
  assumes ok: "pacemaker_NewCollector crmMonPath cibAdminPath chk = Inr c"
    and ne: "Configuration_Constraints_RscLocations CIB \<noteq> []"
  shows "last (fst (pacemaker_Collect c order parseANSIC (Inr crmMon) (Inr CIB))) =
         last (fst (recordConstraints c CIB))"
    and "fst (pacemaker_Collect c order parseANSIC (Inr crmMon) (Inr CIB)) \<noteq> []"
proof -
  define Q :: "panic option \<Rightarrow> bool" where "Q = (\<lambda>x. x = None)"
  define P :: "Metric \<Rightarrow> bool" where "P = (\<lambda>m. True)"
  have Q: "Q None" by (simp add: Q_def)
  have P: "P m" for m by (simp add: P_def)
  have "emits Q P (recordNodes c order crmMon)"
    by (rule recordNodes_emits[OF ok]) (rule Q, rule P, rule P)
  then have 2: "snd (recordNodes c order crmMon) = None"
    by (simp add: emits_def Q_def)
  have "emits Q P (recordUngroupedResources c order crmMon)"
    by (rule recordUngroupedResources_emits[OF ok]) (rule Q, rule P)
  then have 3: "snd (recordUngroupedResources c order crmMon) = None"
    by (simp add: emits_def Q_def)
  have 1: "snd (send (MakeGaugeMetric (pacemaker_DefaultCollector c) ''stonith_enabled''
      v [])) = None" for v
    by (simp add: send_gauge[OF pacemaker_registered(3)[OF ok], of "[]", simplified])
  have 4: "snd (recordFailCounts c crmMon) = None"
    by (simp add: recordFailCounts_eq[OF ok])
  have 5: "snd (recordMigrationThresholds c crmMon) = None"
    by (simp add: recordMigrationThresholds_eq[OF ok])
  have 6: "snd (recordResourceAgentsChanges c parseANSIC crmMon) = None"
    by (simp add: recordResourceAgentsChanges_eq[OF ok])
  have 7: "fst (recordConstraints c CIB) \<noteq> []"
    using ne by (simp add: recordConstraints_eq[OF ok])
  have all: "fst (pacemaker_Collect c order parseANSIC (Inr crmMon) (Inr CIB)) =
      fst (send (MakeGaugeMetric (pacemaker_DefaultCollector c) ''stonith_enabled''
        (if Summary_ClusterOptions_StonithEnabled crmMon then Finite 1 else Finite 0) [])) @
      fst (recordNodes c order crmMon) @
      fst (recordUngroupedResources c order crmMon) @
      fst (recordFailCounts c crmMon) @
      fst (recordMigrationThresholds c crmMon) @
      fst (recordResourceAgentsChanges c parseANSIC crmMon) @
      fst (recordConstraints c CIB)"
    by (simp add: pacemaker_Collect_def Let_def fst_andThen_none 1 2 3 4 5 6)
  show "last (fst (pacemaker_Collect c order parseANSIC (Inr crmMon) (Inr CIB))) =
         last (fst (recordConstraints c CIB))"
    unfolding all using 7 by simp
  show "fst (pacemaker_Collect c order parseANSIC (Inr crmMon) (Inr CIB)) \<noteq> []"
    unfolding all using 7 by simp
qed

section \<open>The claims\<close>

subsection \<open>C1: a failed drbdsetup status\<close>

text \<open>
  C1, as the claim states it, fails: the collector records the split-brain markers
  before it runs \<^verbatim>\<open>drbdsetup status\<close>, so a marker file yields its split_brain sample
  although the command fails, and although its output does not parse.
\<close>

theorem drbd_Collect_failure_keeps_split_brain:
  "drbd_NewCollector ''/sbin/drbdsetup'' ''/var/run/drbd/splitbrain'' None = Inr exampleDrbd \<and>
   length (fst (drbd_Collect exampleDrbd example_unmarshal
     [''drbd-split-brain-detected-myres-0''] (Inl ''exit status 1''))) = 1 \<and>
   Desc_name (Metric_desc (hd (fst (drbd_Collect exampleDrbd example_unmarshal
     [''drbd-split-brain-detected-myres-0''] (Inl ''exit status 1''))))) = ''split_brain'' \<and>
   Metric_labelValues (hd (fst (drbd_Collect exampleDrbd example_unmarshal
     [''drbd-split-brain-detected-myres-0''] (Inl ''exit status 1'')))) = [''myres'', ''0''] \<and>
   example_unmarshal ''not json'' = Inl ''unexpected end of JSON input'' \<and>
   length (fst (drbd_Collect exampleDrbd example_unmarshal
     [''drbd-split-brain-detected-myres-0''] (Inr ''not json''))) = 1"
proof -
  note ok = exampleDrbd_ok
  have name: "Desc_name (registered (drbd_DefaultCollector exampleDrbd) ''split_brain'') =
      ''split_brain''"
    by (rule registered_name[OF drbd_registered(15)[OF ok]])
  have u: "example_unmarshal ''not json'' = Inl ''unexpected end of JSON input''"
    by (simp add: example_unmarshal_def)
  have "count_list ''myres-0'' CHR ''-'' < 4"
    by simp
  from recordDrbdSplitBrainMetric_single[OF ok this]
  have m: "recordDrbdSplitBrainMetric exampleDrbd [''drbd-split-brain-detected-myres-0''] =
      ([metricOf (drbd_DefaultCollector exampleDrbd) ''split_brain'' GaugeValue (Finite 1)
          [''myres'', ''0'']], None)"
    by (simp add: Split_def)
  show ?thesis
    by (simp add: ok u drbd_Collect_failed(1) drbd_Collect_failed(2)[where unmarshal = example_unmarshal, OF u] m metricOf_def name)
qed

text \<open>
  C1, amended. If invoking \<^verbatim>\<open>drbdsetup status\<close> fails or its JSON output fails to parse,
  the pass of the DRBD collector sends no metric derived from the status (resources,
  written, read, al_writes, bm_writes, upper_pending, lower_pending, quorum and the
  connections metrics): it sends exactly the split_brain samples of the marker
  directory, which are recorded before the command is run. (The pass of the Pacemaker
  collector takes no input from the DRBD source.)
\<close>

theorem drbd_Collect_status_failure:
  assumes "drbd_NewCollector setupPath splitBrainPath chk = Inr c"
  shows "drbd_Collect c unmarshal files (Inl err) = recordDrbdSplitBrainMetric c files \<and>
         (unmarshal drbdStatusRaw = Inl err \<longrightarrow>
            drbd_Collect c unmarshal files (Inr drbdStatusRaw) =
              recordDrbdSplitBrainMetric c files) \<and>
         (\<forall>m \<in> set (fst (recordDrbdSplitBrainMetric c files)).
            Desc_name (Metric_desc m) = ''split_brain'' \<and> Metric_val m = Finite 1)"
proof -
  have name: "Desc_name (registered (drbd_DefaultCollector c) ''split_brain'') = ''split_brain''"
    by (rule registered_name[OF drbd_registered(15)[OF assms]])
  have "emits (\<lambda>p. True)
      (\<lambda>m. Desc_name (Metric_desc m) = ''split_brain'' \<and> Metric_val m = Finite 1)
      (recordDrbdSplitBrainMetric c files)"
    by (rule recordDrbdSplitBrainMetric_emits[OF assms]) (simp_all add: metricOf_def name)
  then have 3: "\<forall>m \<in> set (fst (recordDrbdSplitBrainMetric c files)).
            Desc_name (Metric_desc m) = ''split_brain'' \<and> Metric_val m = Finite 1"
    by (simp add: emits_def list_all_iff)
  have 2: "unmarshal drbdStatusRaw = Inl err \<longrightarrow>
            drbd_Collect c unmarshal files (Inr drbdStatusRaw) =
              recordDrbdSplitBrainMetric c files"
    by (simp add: drbd_Collect_failed(2))
  show ?thesis
    by (intro conjI drbd_Collect_failed(1) 2 3)
qed

theorem drbd_Collect_status_failure_witness:
  "drbd_NewCollector ''/sbin/drbdsetup'' ''/var/run/drbd/splitbrain'' None = Inr exampleDrbd \<and>
   example_unmarshal ''not json'' = Inl ''unexpected end of JSON input'' \<and>
   drbd_Collect exampleDrbd example_unmarshal [''drbd-split-brain-detected-myres-0'']
     (Inr ''not json'') =
   drbd_Collect exampleDrbd example_unmarshal [''drbd-split-brain-detected-myres-0'']
     (Inl ''exit status 1'') \<and>
   map (\<lambda>m. Desc_name (Metric_desc m))
     (fst (drbd_Collect exampleDrbd example_unmarshal [''drbd-split-brain-detected-myres-0'']
        (Inr ''not json''))) = [''split_brain'']"
proof -
  note ok = exampleDrbd_ok
  have u: "example_unmarshal ''not json'' = Inl ''unexpected end of JSON input''"
    by (simp add: example_unmarshal_def)
  note t = drbd_Collect_status_failure[OF ok, where unmarshal = example_unmarshal
      and files = "[''drbd-split-brain-detected-myres-0'']" and drbdStatusRaw = "''not json''"]
  from t[where err = "''unexpected end of JSON input''"] u
  have a: "drbd_Collect exampleDrbd example_unmarshal [''drbd-split-brain-detected-myres-0'']
     (Inr ''not json'') =
     recordDrbdSplitBrainMetric exampleDrbd [''drbd-split-brain-detected-myres-0'']"
    by simp
  from t[where err = "''exit status 1''"]
  have b: "drbd_Collect exampleDrbd example_unmarshal [''drbd-split-brain-detected-myres-0'']
     (Inl ''exit status 1'') =
     recordDrbdSplitBrainMetric exampleDrbd [''drbd-split-brain-detected-myres-0'']"
    by simp
  have "count_list ''myres-0'' CHR ''-'' < 4"
    by simp
  from recordDrbdSplitBrainMetric_single[OF ok this]
  have "length (fst (recordDrbdSplitBrainMetric exampleDrbd
      [''drbd-split-brain-detected-myres-0''])) = 1"
    by (simp add: Split_def)
  with t[where err = "''exit status 1''"]
  have c: "map (\<lambda>m. Desc_name (Metric_desc m))
     (fst (recordDrbdSplitBrainMetric exampleDrbd [''drbd-split-brain-detected-myres-0''])) =
     [''split_brain'']"
    by (cases "fst (recordDrbdSplitBrainMetric exampleDrbd
      [''drbd-split-brain-detected-myres-0''])") simp_all
  show ?thesis
    unfolding a b by (intro conjI ok u refl c)
qed

subsection \<open>C2: the split-brain projection on an arbitrary directory\<close>

text \<open>
  C2 says that the split-brain projection completes without a panic for every listing
  of the marker directory. The collector tests whether any entry of the directory
  matches the pattern, not whether the entry at hand does: as soon as one entry has the
  prefix, every entry is split at the prefix and the piece after it is read, and for an
  entry that does not contain the prefix (here: one with fewer than four hyphens) there
  is no such piece. The index expression panics, and the panic ends the pass of the
  DRBD collector.
\<close>

theorem recordDrbdSplitBrainMetric_panics:
  assumes "drbd_NewCollector setupPath splitBrainPath chk = Inr c"
    and "f \<in> set files"
    and "take (length ''drbd-split-brain-detected-'') f = ''drbd-split-brain-detected-''"
    and "g \<in> set files"
    and "count_list g CHR ''-'' < 4"
  shows "snd (recordDrbdSplitBrainMetric c files) = Some IndexOutOfRange \<and>
         snd (drbd_Collect c unmarshal files statusOutput) = Some IndexOutOfRange"
proof -
  let ?Q = "\<lambda>p. p = None \<or> p = Some IndexOutOfRange"
  have "emits ?Q (\<lambda>m. True) (recordDrbdSplitBrainMetric c files)"
    by (rule recordDrbdSplitBrainMetric_emits[OF assms(1)]) simp_all
  then have cases: "snd (recordDrbdSplitBrainMetric c files) = None \<or>
      snd (recordDrbdSplitBrainMetric c files) = Some IndexOutOfRange"
    by (simp add: emits_def)
  have "filter (\<lambda>n. take (length ''drbd-split-brain-detected-'') n =
      ''drbd-split-brain-detected-'') files \<noteq> []"
  proof
    assume "filter (\<lambda>n. take (length ''drbd-split-brain-detected-'') n =
      ''drbd-split-brain-detected-'') files = []"
    then have "\<forall>n \<in> set files. \<not> take (length ''drbd-split-brain-detected-'') n =
      ''drbd-split-brain-detected-''"
      by (simp only: filter_empty_conv)
    then have "\<not> take (length ''drbd-split-brain-detected-'') f = ''drbd-split-brain-detected-''"
      using assms(2) by (rule bspec)
    then show False
      using assms(3) by (rule notE)
  qed
  then have glob: "Glob_splitBrain (drbdSplitBrainPath c) files \<noteq> []"
    unfolding Glob_splitBrain_def by (simp only: map_is_Nil_conv not_False_eq_True)
  have "count_list g CHR ''-'' < count_list ''drbd-split-brain-detected-'' CHR ''-''"
    using assms(5) by simp
  then have "Split g ''drbd-split-brain-detected-'' = [g]"
    by (rule Split_absent)
  then have split: "length (Split g ''drbd-split-brain-detected-'') = 1"
    by (simp only: list.size One_nat_def add_0)
  define body where "body = (\<lambda>f.
          let match = Glob_splitBrain (drbdSplitBrainPath c) files in
          if match = [] then skip
          else
            indexThen (Split f ''drbd-split-brain-detected-'') 1
              (\<lambda>resAndVolume.
                 if length (Split resAndVolume ''-'') \<noteq> 2 then skip
                 else
                   let resourceAndVolume = Split resAndVolume ''-'' in
                   indexThen resourceAndVolume 0
                     (\<lambda>res. indexThen resourceAndVolume 1
                        (\<lambda>vol. send (MakeGaugeMetric (drbd_DefaultCollector c) ''split_brain''
                                  (Finite 1) [res, vol])))))"
  have unfold: "recordDrbdSplitBrainMetric c files = forEach files body"
    unfolding recordDrbdSplitBrainMetric_def body_def by (rule refl)
  have "body g = ([], Some IndexOutOfRange)"
    unfolding body_def Let_def indexThen_def split
    by (simp only: glob if_False less_irrefl)
  then have "snd (body g) \<noteq> None"
    by simp
  from forEach_panics[of g files body, OF assms(4) this]
  have "snd (recordDrbdSplitBrainMetric c files) \<noteq> None"
    unfolding unfold .
  with cases have 1: "snd (recordDrbdSplitBrainMetric c files) = Some IndexOutOfRange"
    by simp
  then have 2: "snd (drbd_Collect c unmarshal files statusOutput) = Some IndexOutOfRange"
    by (simp add: drbd_Collect_def andThen_def)
  from 1 2 show ?thesis
    by (rule conjI)
qed

theorem recordDrbdSplitBrainMetric_panics_witness:
  "drbd_NewCollector ''/sbin/drbdsetup'' ''/var/run/drbd/splitbrain'' None = Inr exampleDrbd \<and>
   snd (recordDrbdSplitBrainMetric exampleDrbd
     [''drbd-split-brain-detected-myres-0'', ''lost+found'']) = Some IndexOutOfRange \<and>
   snd (drbd_Collect exampleDrbd example_unmarshal
     [''drbd-split-brain-detected-myres-0'', ''lost+found''] (Inr ''[{1-single-0}]'')) =
     Some IndexOutOfRange"
proof -
  note ok = exampleDrbd_ok
  have "snd (recordDrbdSplitBrainMetric exampleDrbd
     [''drbd-split-brain-detected-myres-0'', ''lost+found'']) = Some IndexOutOfRange \<and>
   snd (drbd_Collect exampleDrbd example_unmarshal
     [''drbd-split-brain-detected-myres-0'', ''lost+found''] (Inr ''[{1-single-0}]'')) =
     Some IndexOutOfRange"
    by (rule recordDrbdSplitBrainMetric_panics[OF ok,
          where f = "''drbd-split-brain-detected-myres-0''" and g = "''lost+found''"])
       simp_all
  with ok show ?thesis
    by (rule conjI)
qed

subsection \<open>C3: lower-cased label values\<close>

lemma set_fst_andThen: "m \<in> set (fst (andThen a b)) \<Longrightarrow> m \<in> set (fst a) \<or> m \<in> set (fst b)"
  by (cases a) (auto simp add: andThen_def split: option.splits)

lemma recordDevice_member:
  assumes "drbd_NewCollector setupPath splitBrainPath chk = Inr c"
    and "m \<in> set (fst (recordDevice c resource device))"
  shows "Desc_name (Metric_desc m) \<noteq> ''connections'' \<and>
         (Desc_name (Metric_desc m) = ''resources'' \<longrightarrow>
            Metric_labelValues m ! 1 = drbdStatus_Role resource \<and>
            Metric_labelValues m ! 3 = ToLower (Device_DiskState device))"
proof -
  note names = drbd_names[OF assms(1)]
  have "list_all (\<lambda>m. Desc_name (Metric_desc m) \<noteq> ''connections'' \<and>
         (Desc_name (Metric_desc m) = ''resources'' \<longrightarrow>
            Metric_labelValues m ! 1 = drbdStatus_Role resource \<and>
            Metric_labelValues m ! 3 = ToLower (Device_DiskState device)))
      (fst (recordDevice c resource device))"
    by (simp add: recordDevice_eq[OF assms(1)] metricOf_def names)
  with assms(2) show ?thesis
    by (simp add: list_all_iff)
qed

lemma recordPeerDevice_member:
  assumes "drbd_NewCollector setupPath splitBrainPath chk = Inr c"
    and "m \<in> set (fst (recordPeerDevice c resource conn peerDev))"
  shows "Desc_name (Metric_desc m) \<noteq> ''resources'' \<and>
         (Desc_name (Metric_desc m) = ''connections'' \<longrightarrow>
            Metric_labelValues m ! 2 = Connection_PeerRole conn \<and>
            Metric_labelValues m ! 4 = ToLower (PeerDevice_PeerDiskState peerDev))"
proof -
  note names = drbd_names[OF assms(1)]
  have "list_all (\<lambda>m. Desc_name (Metric_desc m) \<noteq> ''resources'' \<and>
         (Desc_name (Metric_desc m) = ''connections'' \<longrightarrow>
            Metric_labelValues m ! 2 = Connection_PeerRole conn \<and>
            Metric_labelValues m ! 4 = ToLower (PeerDevice_PeerDiskState peerDev)))
      (fst (recordPeerDevice c resource conn peerDev))"
    by (simp add: recordPeerDevice_eq[OF assms(1)] metricOf_def names)
  with assms(2) show ?thesis
    by (simp add: list_all_iff)
qed

text \<open>
  C3, as the claim states it, fails for the DRBD collector: it lower-cases the disk
  state of the \<^verbatim>\<open>resources\<close> sample and leaves the role as \<^verbatim>\<open>drbdsetup\<close> reports it,
  so the resource of role \<^verbatim>\<open>Primary\<close> is sent with the role label \<^verbatim>\<open>Primary\<close>.
\<close>

theorem drbd_Collect_role_not_lowered:
  "drbd_NewCollector ''/sbin/drbdsetup'' ''/var/run/drbd/splitbrain'' None = Inr exampleDrbd \<and>
   example_unmarshal ''[{1-single-0}]'' = Inr [example_drbdStatus] \<and>
   drbdStatus_Role example_drbdStatus = ''Primary'' \<and>
   Desc_name (Metric_desc (hd (fst (drbd_Collect exampleDrbd example_unmarshal []
     (Inr ''[{1-single-0}]''))))) = ''resources'' \<and>
   Metric_labelValues (hd (fst (drbd_Collect exampleDrbd example_unmarshal []
     (Inr ''[{1-single-0}]'')))) = [''1-single-0'', ''Primary'', ''0'', ''uptodate''] \<and>
   isUpper CHR ''P'' \<and>
   ToLower ''Primary'' = ''primary''"
proof -
  note ok = exampleDrbd_ok
  have u: "example_unmarshal ''[{1-single-0}]'' = Inr [example_drbdStatus]"
    by (simp add: example_unmarshal_def)
  have none: "recordDrbdSplitBrainMetric exampleDrbd [] = ([], None)"
    by (simp add: recordDrbdSplitBrainMetric_def skip_def)
  have first: "hd (fst (recordDrbdResource exampleDrbd example_drbdStatus)) =
      metricOf (drbd_DefaultCollector exampleDrbd) ''resources'' GaugeValue (Finite 1)
        [''1-single-0'', ''Primary'', Itoa 0, ToLower ''UpToDate'']"
    by (simp add: recordDrbdResource_eq[OF ok] recordDevice_eq[OF ok] example_drbdStatus_def)
  have nonempty: "fst (recordDrbdResource exampleDrbd example_drbdStatus) \<noteq> []"
    by (simp add: recordDrbdResource_eq[OF ok] recordDevice_eq[OF ok] example_drbdStatus_def)
  have "fst (drbd_Collect exampleDrbd example_unmarshal [] (Inr ''[{1-single-0}]'')) =
      fst (recordDrbdResource exampleDrbd example_drbdStatus)"
    unfolding drbd_Collect_parsed[where unmarshal = example_unmarshal
        and drbdStatusRaw = "''[{1-single-0}]''", OF ok u] none
    by simp
  then have m: "hd (fst (drbd_Collect exampleDrbd example_unmarshal []
      (Inr ''[{1-single-0}]''))) =
      metricOf (drbd_DefaultCollector exampleDrbd) ''resources'' GaugeValue (Finite 1)
        [''1-single-0'', ''Primary'', Itoa 0, ToLower ''UpToDate'']"
    by (simp only: first)
  have vol: "Itoa 0 = ''0''" and state: "ToLower ''UpToDate'' = ''uptodate''"
    and role: "ToLower ''Primary'' = ''primary''" and upper: "isUpper CHR ''P''"
    by (simp_all add: go_string_eval)
  have r: "drbdStatus_Role example_drbdStatus = ''Primary''"
    by (simp add: example_drbdStatus_def)
  show ?thesis
    unfolding m
    by (simp add: ok u r vol state role upper metricOf_def drbd_names(1)[OF ok])
qed

text \<open>
  C3, amended. Every label value that carries a Pacemaker role (the role of a
  \<^verbatim>\<open>resources\<close> sample and of a \<^verbatim>\<open>location_constraints\<close> sample) or a DRBD disk
  state (the disk_state of a \<^verbatim>\<open>resources\<close> sample, the peer_disk_state of a
  \<^verbatim>\<open>connections\<close> sample) is lower-cased on output: it holds no upper-case letter. The
  role label of the DRBD \<^verbatim>\<open>resources\<close> sample and the peer_role label of the
  \<^verbatim>\<open>connections\<close> sample are the role strings of the status, unchanged.
\<close>

theorem Collect_lower_case_labels:
  assumes p: "pacemaker_NewCollector crmMonPath cibAdminPath chk = Inr pc"
    and d: "drbd_NewCollector setupPath splitBrainPath chk' = Inr dc"
    and u: "unmarshal drbdStatusRaw = Inr drbdDev"
  shows "(\<forall>m \<in> set (fst (pacemaker_Collect pc order parseANSIC crmMonParse cibParse)).
            (Desc_name (Metric_desc m) = ''resources'' \<longrightarrow>
               (\<forall>ch \<in> set (Metric_labelValues m ! 2). \<not> isUpper ch)) \<and>
            (Desc_name (Metric_desc m) = ''location_constraints'' \<longrightarrow>
               (\<forall>ch \<in> set (Metric_labelValues m ! 3). \<not> isUpper ch))) \<and>
         (\<forall>m \<in> set (fst (drbd_Collect dc unmarshal files (Inr drbdStatusRaw))).
            (Desc_name (Metric_desc m) = ''resources'' \<longrightarrow>
               (\<forall>ch \<in> set (Metric_labelValues m ! 3). \<not> isUpper ch) \<and>
               (\<exists>resource \<in> set drbdDev. \<exists>device \<in> set (drbdStatus_Devices resource).
                  Metric_labelValues m ! 1 = drbdStatus_Role resource \<and>
                  Metric_labelValues m ! 3 = ToLower (Device_DiskState device))) \<and>
            (Desc_name (Metric_desc m) = ''connections'' \<longrightarrow>
               (\<forall>ch \<in> set (Metric_labelValues m ! 4). \<not> isUpper ch) \<and>
               (\<exists>resource \<in> set drbdDev. \<exists>conn \<in> set (drbdStatus_Connections resource).
                  \<exists>peerDev \<in> set (Connection_PeerDevices conn).
                  Metric_labelValues m ! 2 = Connection_PeerRole conn \<and>
                  Metric_labelValues m ! 4 = ToLower (PeerDevice_PeerDiskState peerDev))))"
proof -
  define Q :: "panic option \<Rightarrow> bool" where "Q = (\<lambda>x. True)"
  define Pp :: "Metric \<Rightarrow> bool" where "Pp = (\<lambda>m.
      (Desc_name (Metric_desc m) = ''resources'' \<longrightarrow>
         (\<forall>ch \<in> set (Metric_labelValues m ! 2). \<not> isUpper ch)) \<and>
      (Desc_name (Metric_desc m) = ''location_constraints'' \<longrightarrow>
         (\<forall>ch \<in> set (Metric_labelValues m ! 3). \<not> isUpper ch)))"
  define Pd :: "Metric \<Rightarrow> bool" where "Pd = (\<lambda>m.
      (Desc_name (Metric_desc m) = ''resources'' \<longrightarrow>
         (\<forall>ch \<in> set (Metric_labelValues m ! 3). \<not> isUpper ch) \<and>
         (\<exists>resource \<in> set drbdDev. \<exists>device \<in> set (drbdStatus_Devices resource).
            Metric_labelValues m ! 1 = drbdStatus_Role resource \<and>
            Metric_labelValues m ! 3 = ToLower (Device_DiskState device))) \<and>
      (Desc_name (Metric_desc m) = ''connections'' \<longrightarrow>
         (\<forall>ch \<in> set (Metric_labelValues m ! 4). \<not> isUpper ch) \<and>
         (\<exists>resource \<in> set drbdDev. \<exists>conn \<in> set (drbdStatus_Connections resource).
            \<exists>peerDev \<in> set (Connection_PeerDevices conn).
            Metric_labelValues m ! 2 = Connection_PeerRole conn \<and>
            Metric_labelValues m ! 4 = ToLower (PeerDevice_PeerDiskState peerDev))))"
  note pn = pacemaker_names[OF p]
  note dn = drbd_names[OF d]
  have pe: "emits Q Pp (pacemaker_Collect pc order parseANSIC crmMonParse cibParse)"
  proof (rule pacemaker_Collect_emits[OF p])
    show "Q None" by (simp add: Q_def)
    show "Pp (metricOf (pacemaker_DefaultCollector pc) ''stonith_enabled'' GaugeValue v [])"
      for v by (simp add: Pp_def metricOf_def pn)
    show "Pp (metricOf (pacemaker_DefaultCollector pc) ''nodes'' GaugeValue (Finite 1)
        [a, b, st])" for a b st
      by (simp add: Pp_def metricOf_def pn)
    show "Pp (metricOf (pacemaker_DefaultCollector pc) ''resources'' GaugeValue (Finite 1)
        [a, b, ToLower role, m, st])" for a b role m st
      by (simp add: Pp_def metricOf_def pn ToLower_not_upper)
    show "Pp (metricOf (pacemaker_DefaultCollector pc) ''fail_count'' GaugeValue v [a, b])"
      for v a b by (simp add: Pp_def metricOf_def pn)
    show "Pp (metricOf (pacemaker_DefaultCollector pc) ''migration_threshold'' GaugeValue v
        [a, b])" for v a b
      by (simp add: Pp_def metricOf_def pn)
    show "Pp (metricOf (pacemaker_DefaultCollector pc) ''config_last_change'' CounterValue v
        [])" for v
      by (simp add: Pp_def metricOf_def pn)
    show "Pp (metricOf (pacemaker_DefaultCollector pc) ''location_constraints'' GaugeValue v
        [a, b, e, ToLower role])" for v a b e role
      by (simp add: Pp_def metricOf_def pn ToLower_not_upper)
  qed
  have 1: "\<forall>m \<in> set (fst (pacemaker_Collect pc order parseANSIC crmMonParse cibParse)).
            (Desc_name (Metric_desc m) = ''resources'' \<longrightarrow>
               (\<forall>ch \<in> set (Metric_labelValues m ! 2). \<not> isUpper ch)) \<and>
            (Desc_name (Metric_desc m) = ''location_constraints'' \<longrightarrow>
               (\<forall>ch \<in> set (Metric_labelValues m ! 3). \<not> isUpper ch))"
  proof
    fix m
    assume "m \<in> set (fst (pacemaker_Collect pc order parseANSIC crmMonParse cibParse))"
    from emits_set[OF pe this] show "(Desc_name (Metric_desc m) = ''resources'' \<longrightarrow>
               (\<forall>ch \<in> set (Metric_labelValues m ! 2). \<not> isUpper ch)) \<and>
            (Desc_name (Metric_desc m) = ''location_constraints'' \<longrightarrow>
               (\<forall>ch \<in> set (Metric_labelValues m ! 3). \<not> isUpper ch))"
      unfolding Pp_def .
  qed
  have markers: "emits Q (\<lambda>m. Desc_name (Metric_desc m) = ''split_brain'')
      (recordDrbdSplitBrainMetric dc files)"
    by (rule recordDrbdSplitBrainMetric_emits[OF d]) (simp_all add: Q_def metricOf_def dn)
  have device: "Pd m" if r: "resource \<in> set drbdDev"
    and dv: "device \<in> set (drbdStatus_Devices resource)"
    and m: "m \<in> set (fst (recordDevice dc resource device))" for m resource device
  proof -
    from recordDevice_member[OF d m]
    have n: "Desc_name (Metric_desc m) \<noteq> ''connections''"
      and l: "Desc_name (Metric_desc m) = ''resources'' \<Longrightarrow>
            Metric_labelValues m ! 1 = drbdStatus_Role resource \<and>
            Metric_labelValues m ! 3 = ToLower (Device_DiskState device)"
      by simp_all
    show ?thesis
      unfolding Pd_def
    proof (intro conjI impI)
      assume "Desc_name (Metric_desc m) = ''connections''"
      with n show "\<forall>ch \<in> set (Metric_labelValues m ! 4). \<not> isUpper ch" by simp
    next
      assume "Desc_name (Metric_desc m) = ''connections''"
      with n show "\<exists>resource \<in> set drbdDev. \<exists>conn \<in> set (drbdStatus_Connections resource).
            \<exists>peerDev \<in> set (Connection_PeerDevices conn).
            Metric_labelValues m ! 2 = Connection_PeerRole conn \<and>
            Metric_labelValues m ! 4 = ToLower (PeerDevice_PeerDiskState peerDev)" by simp
    next
      assume a: "Desc_name (Metric_desc m) = ''resources''"
      from l[OF a] show "\<forall>ch \<in> set (Metric_labelValues m ! 3). \<not> isUpper ch"
        by (simp add: ToLower_not_upper)
    next
      assume a: "Desc_name (Metric_desc m) = ''resources''"
      from l[OF a] dv have "\<exists>device \<in> set (drbdStatus_Devices resource).
            Metric_labelValues m ! 1 = drbdStatus_Role resource \<and>
            Metric_labelValues m ! 3 = ToLower (Device_DiskState device)"
        by (rule_tac x = device in bexI)
      with r show "\<exists>resource \<in> set drbdDev. \<exists>device \<in> set (drbdStatus_Devices resource).
            Metric_labelValues m ! 1 = drbdStatus_Role resource \<and>
            Metric_labelValues m ! 3 = ToLower (Device_DiskState device)"
        by (rule_tac x = resource in bexI)
    qed
  qed
  have peer: "Pd m" if r: "resource \<in> set drbdDev"
    and cn: "conn \<in> set (drbdStatus_Connections resource)"
    and pd: "peerDev \<in> set (Connection_PeerDevices conn)"
    and m: "m \<in> set (fst (recordPeerDevice dc resource conn peerDev))"
    for m resource conn peerDev
  proof -
    from recordPeerDevice_member[OF d m]
    have n: "Desc_name (Metric_desc m) \<noteq> ''resources''"
      and l: "Desc_name (Metric_desc m) = ''connections'' \<Longrightarrow>
            Metric_labelValues m ! 2 = Connection_PeerRole conn \<and>
            Metric_labelValues m ! 4 = ToLower (PeerDevice_PeerDiskState peerDev)"
      by simp_all
    show ?thesis
      unfolding Pd_def
    proof (intro conjI impI)
      assume "Desc_name (Metric_desc m) = ''resources''"
      with n show "\<forall>ch \<in> set (Metric_labelValues m ! 3). \<not> isUpper ch" by simp
    next
      assume "Desc_name (Metric_desc m) = ''resources''"
      with n show "\<exists>resource \<in> set drbdDev. \<exists>device \<in> set (drbdStatus_Devices resource).
            Metric_labelValues m ! 1 = drbdStatus_Role resource \<and>
            Metric_labelValues m ! 3 = ToLower (Device_DiskState device)" by simp
    next
      assume a: "Desc_name (Metric_desc m) = ''connections''"
      from l[OF a] show "\<forall>ch \<in> set (Metric_labelValues m ! 4). \<not> isUpper ch"
        by (simp add: ToLower_not_upper)
    next
      assume a: "Desc_name (Metric_desc m) = ''connections''"
      from l[OF a] pd have "\<exists>peerDev \<in> set (Connection_PeerDevices conn).
            Metric_labelValues m ! 2 = Connection_PeerRole conn \<and>
            Metric_labelValues m ! 4 = ToLower (PeerDevice_PeerDiskState peerDev)"
        by (rule_tac x = peerDev in bexI)
      with cn have "\<exists>conn \<in> set (drbdStatus_Connections resource).
            \<exists>peerDev \<in> set (Connection_PeerDevices conn).
            Metric_labelValues m ! 2 = Connection_PeerRole conn \<and>
            Metric_labelValues m ! 4 = ToLower (PeerDevice_PeerDiskState peerDev)"
        by (rule_tac x = conn in bexI)
      with r show "\<exists>resource \<in> set drbdDev. \<exists>conn \<in> set (drbdStatus_Connections resource).
            \<exists>peerDev \<in> set (Connection_PeerDevices conn).
            Metric_labelValues m ! 2 = Connection_PeerRole conn \<and>
            Metric_labelValues m ! 4 = ToLower (PeerDevice_PeerDiskState peerDev)"
        by (rule_tac x = resource in bexI)
    qed
  qed
  have 2: "\<forall>m \<in> set (fst (drbd_Collect dc unmarshal files (Inr drbdStatusRaw))). Pd m"
  proof
    fix m
    assume "m \<in> set (fst (drbd_Collect dc unmarshal files (Inr drbdStatusRaw)))"
    then have "m \<in> set (fst (recordDrbdSplitBrainMetric dc files)) \<or>
        m \<in> set (concat (map (\<lambda>resource. fst (recordDrbdResource dc resource)) drbdDev))"
      unfolding drbd_Collect_parsed[where unmarshal = unmarshal
          and drbdStatusRaw = drbdStatusRaw, OF d u]
      by (drule_tac set_fst_andThen) simp
    then show "Pd m"
    proof
      assume "m \<in> set (fst (recordDrbdSplitBrainMetric dc files))"
      from emits_set[OF markers this] show ?thesis
        by (simp add: Pd_def)
    next
      assume "m \<in> set (concat (map (\<lambda>resource. fst (recordDrbdResource dc resource)) drbdDev))"
      then obtain resource where r: "resource \<in> set drbdDev"
        and "m \<in> set (fst (recordDrbdResource dc resource))"
        by auto
      then have "(\<exists>device \<in> set (drbdStatus_Devices resource).
            m \<in> set (fst (recordDevice dc resource device))) \<or>
          (\<exists>conn \<in> set (drbdStatus_Connections resource).
            \<exists>peerDev \<in> set (Connection_PeerDevices conn).
            m \<in> set (fst (recordPeerDevice dc resource conn peerDev)))"
        unfolding recordDrbdResource_eq[OF d] by auto
      then show ?thesis
      proof
        assume "\<exists>device \<in> set (drbdStatus_Devices resource).
            m \<in> set (fst (recordDevice dc resource device))"
        then obtain device where "device \<in> set (drbdStatus_Devices resource)"
          "m \<in> set (fst (recordDevice dc resource device))" by (elim bexE)
        with r show ?thesis by (rule device)
      next
        assume "\<exists>conn \<in> set (drbdStatus_Connections resource).
            \<exists>peerDev \<in> set (Connection_PeerDevices conn).
            m \<in> set (fst (recordPeerDevice dc resource conn peerDev))"
        then obtain conn peerDev where "conn \<in> set (drbdStatus_Connections resource)"
          "peerDev \<in> set (Connection_PeerDevices conn)"
          "m \<in> set (fst (recordPeerDevice dc resource conn peerDev))" by (elim bexE)
        with r show ?thesis by (rule peer)
      qed
    qed
  qed
  show ?thesis
    by (intro conjI 1) (rule 2[unfolded Pd_def])
qed

theorem Collect_lower_case_labels_witness:
  "pacemaker_NewCollector ''/usr/sbin/crm_mon'' ''/usr/sbin/cibadmin'' None =
     Inr examplePacemaker \<and>
   drbd_NewCollector ''/sbin/drbdsetup'' ''/var/run/drbd/splitbrain'' None = Inr exampleDrbd \<and>
   example_unmarshal ''[{1-single-0}]'' = Inr [example_drbdStatus] \<and>
   Desc_name (Metric_desc (last (fst (pacemaker_Collect examplePacemaker example_order
     example_parseANSIC (Inr example_crmMon) (Inr example_CIB))))) =
     ''location_constraints'' \<and>
   Metric_labelValues (last (fst (pacemaker_Collect examplePacemaker example_order
     example_parseANSIC (Inr example_crmMon) (Inr example_CIB)))) ! 3 = ''started'' \<and>
   \<not> isUpper (hd (Metric_labelValues (last (fst (pacemaker_Collect examplePacemaker
     example_order example_parseANSIC (Inr example_crmMon) (Inr example_CIB)))) ! 3)) \<and>
   Desc_name (Metric_desc (hd (fst (drbd_Collect exampleDrbd example_unmarshal []
     (Inr ''[{1-single-0}]''))))) = ''resources'' \<and>
   Metric_labelValues (hd (fst (drbd_Collect exampleDrbd example_unmarshal []
     (Inr ''[{1-single-0}]'')))) ! 3 = ''uptodate'' \<and>
   \<not> isUpper (hd (Metric_labelValues (hd (fst (drbd_Collect exampleDrbd example_unmarshal []
     (Inr ''[{1-single-0}]'')))) ! 3))"
proof -
  note p = examplePacemaker_ok
  note d = exampleDrbd_ok
  have u: "example_unmarshal ''[{1-single-0}]'' = Inr [example_drbdStatus]"
    by (simp add: example_unmarshal_def)
  let ?ps = "fst (pacemaker_Collect examplePacemaker example_order example_parseANSIC
      (Inr example_crmMon) (Inr example_CIB))"
  let ?ds = "fst (drbd_Collect exampleDrbd example_unmarshal [] (Inr ''[{1-single-0}]''))"
  note t = Collect_lower_case_labels[where unmarshal = example_unmarshal
      and drbdStatusRaw = "''[{1-single-0}]''", OF p d u, where order = example_order
      and parseANSIC = example_parseANSIC and crmMonParse = "Inr example_crmMon"
      and cibParse = "Inr example_CIB" and files = "[]"]
  have ne: "Configuration_Constraints_RscLocations example_CIB \<noteq> []"
    by (simp add: example_CIB_def)
  have lower: "ToLower ''Started'' = ''started''" "ToLower ''UpToDate'' = ''uptodate''"
    "Itoa 0 = ''0''"
    by (simp_all add: go_string_eval)
  have "last (fst (recordConstraints examplePacemaker example_CIB)) =
      metricOf (pacemaker_DefaultCollector examplePacemaker) ''location_constraints''
        GaugeValue (constraintScore ''high'') [''loc4'', ''node02'', ''rsc2'', ''started'']"
    by (simp add: recordConstraints_eq[OF p] example_CIB_def lower)
  then have pl: "last ?ps =
      metricOf (pacemaker_DefaultCollector examplePacemaker) ''location_constraints''
        GaugeValue (constraintScore ''high'') [''loc4'', ''node02'', ''rsc2'', ''started'']"
    by (simp only: pacemaker_Collect_last(1)[OF p ne])
  have "last ?ps \<in> set ?ps"
    by (rule last_in_set) (rule pacemaker_Collect_last(2)[OF p ne])
  with t have "(Desc_name (Metric_desc (last ?ps)) = ''location_constraints'' \<longrightarrow>
      (\<forall>ch \<in> set (Metric_labelValues (last ?ps) ! 3). \<not> isUpper ch))"
    by (elim conjE) (drule (1) bspec, elim conjE)
  moreover have 1: "Desc_name (Metric_desc (last ?ps)) = ''location_constraints''"
    unfolding pl by (simp add: metricOf_def pacemaker_names(7)[OF p])
  moreover have 2: "Metric_labelValues (last ?ps) ! 3 = ''started''"
    unfolding pl by (simp add: metricOf_def)
  ultimately have 3: "\<not> isUpper (hd (Metric_labelValues (last ?ps) ! 3))"
    by simp
  have none: "recordDrbdSplitBrainMetric exampleDrbd [] = ([], None)"
    by (simp add: recordDrbdSplitBrainMetric_def skip_def)
  have ds: "?ds = fst (recordDrbdResource exampleDrbd example_drbdStatus)"
    unfolding drbd_Collect_parsed[where unmarshal = example_unmarshal
        and drbdStatusRaw = "''[{1-single-0}]''", OF d u] none
    by simp
  have first: "hd (fst (recordDrbdResource exampleDrbd example_drbdStatus)) =
      metricOf (drbd_DefaultCollector exampleDrbd) ''resources'' GaugeValue (Finite 1)
        [''1-single-0'', ''Primary'', ''0'', ''uptodate'']"
    by (simp add: recordDrbdResource_eq[OF d] recordDevice_eq[OF d] example_drbdStatus_def
        lower)
  have nonempty: "fst (recordDrbdResource exampleDrbd example_drbdStatus) \<noteq> []"
    by (simp add: recordDrbdResource_eq[OF d] recordDevice_eq[OF d] example_drbdStatus_def)
  have dl: "hd ?ds =
      metricOf (drbd_DefaultCollector exampleDrbd) ''resources'' GaugeValue (Finite 1)
        [''1-single-0'', ''Primary'', ''0'', ''uptodate'']"
    by (simp only: ds first)
  have "hd ?ds \<in> set ?ds"
    unfolding ds by (rule hd_in_set) (rule nonempty)
  with t have "(Desc_name (Metric_desc (hd ?ds)) = ''resources'' \<longrightarrow>
      (\<forall>ch \<in> set (Metric_labelValues (hd ?ds) ! 3). \<not> isUpper ch) \<and>
      (\<exists>resource \<in> set [example_drbdStatus]. \<exists>device \<in> set (drbdStatus_Devices resource).
         Metric_labelValues (hd ?ds) ! 1 = drbdStatus_Role resource \<and>
         Metric_labelValues (hd ?ds) ! 3 = ToLower (Device_DiskState device)))"
    by (elim conjE) (drule (1) bspec, elim conjE)
  moreover have 4: "Desc_name (Metric_desc (hd ?ds)) = ''resources''"
    unfolding dl by (simp add: metricOf_def drbd_names(1)[OF d])
  moreover have 5: "Metric_labelValues (hd ?ds) ! 3 = ''uptodate''"
    unfolding dl by (simp add: metricOf_def)
  ultimately have 6: "\<not> isUpper (hd (Metric_labelValues (hd ?ds) ! 3))"
    by simp
  show ?thesis
    by (intro conjI p d u 1 2 3 4 5 6)
qed

subsection \<open>C4: fail counts\<close>

text \<open>
  C4. For every (node, resource) pair of the node-history section exactly one
  fail_count sample is sent, in the order of the section, labelled with the node and the
  resource; its value is positive infinity for the raw fail count 1000000 and exactly
  999999.0 for the raw fail count 999999.
\<close>

theorem recordFailCounts_samples:
  assumes "pacemaker_NewCollector crmMonPath cibAdminPath chk = Inr c"
  shows "snd (recordFailCounts c crmMon) = None \<and>
         map (\<lambda>m. (Desc_name (Metric_desc m), Metric_val m, Metric_labelValues m))
           (fst (recordFailCounts c crmMon)) =
         concat (map (\<lambda>node. map (\<lambda>resHistory.
             (''fail_count'', failCount (ResourceHistory_FailCount resHistory),
              [NodeHistoryNode_Name node, ResourceHistory_Name resHistory]))
             (NodeHistoryNode_ResourceHistory node)) (NodeHistory_Node crmMon)) \<and>
         failCount 1000000 = PosInf \<and>
         failCount 999999 = Finite 999999"
proof -
  have name: "Desc_name (registered (pacemaker_DefaultCollector c) ''fail_count'') = ''fail_count''"
    using pacemaker_registered(4)[OF assms] by (simp add: isRegistered_def)
  have "failCount 1000000 = PosInf" "failCount 999999 = Finite 999999"
    by (simp_all add: failCount_def math_Inf_def float64_of_int_def)
  then show ?thesis
    by (simp add: recordFailCounts_eq[OF assms] map_concat comp_def metricOf_def name)
qed

theorem recordFailCounts_samples_witness:
  "pacemaker_NewCollector ''/usr/sbin/crm_mon'' ''/usr/sbin/cibadmin'' None =
     Inr examplePacemaker \<and>
     snd (recordFailCounts examplePacemaker example_crmMon) = None \<and>
     map (\<lambda>m. (Desc_name (Metric_desc m), Metric_val m, Metric_labelValues m))
       (fst (recordFailCounts examplePacemaker example_crmMon)) =
     [(''fail_count'', PosInf, [''node01'', ''rsc1'']),
      (''fail_count'', Finite 999999, [''node01'', ''rsc2''])]"
proof -
  note ok = examplePacemaker_ok
  have "failCount 1000000 = PosInf" "failCount 999999 = Finite 999999"
    using recordFailCounts_samples[OF ok] by simp_all
  with recordFailCounts_samples[OF ok, of example_crmMon] ok show ?thesis
    by (auto simp add: example_crmMon_def)
qed

subsection \<open>C5: location constraints\<close>

text \<open>
  C5, as the claim states it, fails on a digit string outside the signed 64-bit range:
  \<^verbatim>\<open>strconv.Atoi\<close> reports a range error, which the collector drops, and returns the
  nearest bound, so the score \<^verbatim>\<open>99999999999999999999\<close> is sent as \<open>2^63\<close>, neither as
  the integer it denotes (which float64 rounds to \<open>10^20\<close>) nor as 0.
\<close>

theorem constraintScore_out_of_range:
  "signedDecimal ''99999999999999999999'' \<and>
   signedValue ''99999999999999999999'' = 99999999999999999999 \<and>
   float64_of_int 99999999999999999999 = Finite 100000000000000000000 \<and>
   constraintScore ''99999999999999999999'' = Finite 9223372036854775808 \<and>
   constraintScore ''99999999999999999999'' \<noteq> float64_of_int 99999999999999999999 \<and>
   constraintScore ''99999999999999999999'' \<noteq> Finite 99999999999999999999 \<and>
   constraintScore ''99999999999999999999'' \<noteq> Finite 0"
proof -
  have wf: "signedDecimal ''99999999999999999999''"
    by (simp add: signedDecimal_def unsignedPart_def isDigit_def)
  have v: "signedValue ''99999999999999999999'' = 99999999999999999999"
    by (simp add: signedValue_def unsignedPart_def decimalValue_def digitVal_def)
  have a: "Atoi ''99999999999999999999'' = (9223372036854775807, Some ErrRange)"
    by (simp add: Atoi_def ParseInt_def ParseUint_def isDigit_def digitVal_def maxUint64_def)
  have f: "float64_of_int 9223372036854775807 = Finite 9223372036854775808"
    by (simp add: float64_of_int_def bit_length.simps Let_def)
  have g: "float64_of_int 99999999999999999999 = Finite 100000000000000000000"
    by (simp add: float64_of_int_def bit_length.simps Let_def)
  have s: "constraintScore ''99999999999999999999'' = Finite 9223372036854775808"
    by (simp add: constraintScore_def a f)
  show ?thesis
    by (simp add: wf v s g)
qed

text \<open>
  C5, amended. For every location constraint exactly one location_constraints sample is
  sent, in the order of the constraints, labelled (id, node, resource, lower-cased
  role), and the pass is not aborted. Its value decodes the score string:
  \<^verbatim>\<open>INFINITY\<close> is positive infinity, \<^verbatim>\<open>-INFINITY\<close> negative infinity; an optionally
  signed run of decimal digits that denotes an integer of the signed 64-bit range is
  that integer converted to float64 (exactly that integer up to magnitude \<open>2^53\<close>, so
  \<^verbatim>\<open>150\<close> is 150.0); any other string that is not an optionally signed run of decimal
  digits is 0.0, provided its leading digits do not already pass \<open>2^64 - 1\<close>.
\<close>

theorem recordConstraints_samples:
  assumes "pacemaker_NewCollector crmMonPath cibAdminPath chk = Inr c"
  shows "snd (recordConstraints c CIB) = None \<and>
         map (\<lambda>m. (Desc_name (Metric_desc m), Metric_val m, Metric_labelValues m))
           (fst (recordConstraints c CIB)) =
         map (\<lambda>constraint.
             (''location_constraints'', constraintScore (RscLocation_Score constraint),
              [RscLocation_Id constraint, RscLocation_Node constraint,
               RscLocation_Resource constraint, ToLower (RscLocation_Role constraint)]))
           (Configuration_Constraints_RscLocations CIB) \<and>
         constraintScore ''INFINITY'' = PosInf \<and>
         constraintScore ''-INFINITY'' = NegInf \<and>
         constraintScore ''150'' = Finite 150 \<and>
         (signedDecimal s \<and> - (2 ^ 63) \<le> signedValue s \<and> signedValue s < 2 ^ 63 \<longrightarrow>
            constraintScore s = float64_of_int (signedValue s)) \<and>
         (signedDecimal s \<and> \<bar>signedValue s\<bar> \<le> 2 ^ 53 \<longrightarrow>
            constraintScore s = Finite (of_int (signedValue s))) \<and>
         (\<not> signedDecimal s \<and> s \<noteq> ''INFINITY'' \<and> s \<noteq> ''-INFINITY'' \<and>
          decimalValue (takeWhile isDigit (unsignedPart s)) \<le> maxUint64 \<longrightarrow>
            constraintScore s = Finite 0)"
proof -
  have name: "Desc_name (registered (pacemaker_DefaultCollector c) ''location_constraints'') =
      ''location_constraints''"
    by (rule registered_name[OF pacemaker_registered(7)[OF assms]])
  have 1: "snd (recordConstraints c CIB) = None"
    by (simp add: recordConstraints_eq[OF assms])
  have 2: "map (\<lambda>m. (Desc_name (Metric_desc m), Metric_val m, Metric_labelValues m))
           (fst (recordConstraints c CIB)) =
         map (\<lambda>constraint.
             (''location_constraints'', constraintScore (RscLocation_Score constraint),
              [RscLocation_Id constraint, RscLocation_Node constraint,
               RscLocation_Resource constraint, ToLower (RscLocation_Role constraint)]))
           (Configuration_Constraints_RscLocations CIB)"
    by (simp add: recordConstraints_eq[OF assms] comp_def metricOf_def name)
  have 3: "constraintScore ''INFINITY'' = PosInf"
    by (simp add: constraintScore_def math_Inf_def)
  have 4: "constraintScore ''-INFINITY'' = NegInf"
    by (simp add: constraintScore_def math_Inf_def)
  have inf: "\<not> signedDecimal ''INFINITY''" "\<not> signedDecimal ''-INFINITY''"
    by (simp_all add: signedDecimal_def unsignedPart_def isDigit_def)
  have range: "constraintScore s = float64_of_int (signedValue s)"
    if "signedDecimal s" "- (2 ^ 63) \<le> signedValue s" "signedValue s < 2 ^ 63" for s
  proof -
    from that(1) inf have "s \<noteq> ''INFINITY''" "s \<noteq> ''-INFINITY''" by auto
    then show ?thesis
      by (simp add: constraintScore_def Atoi_in_range[OF that])
  qed
  have exact: "constraintScore s = Finite (of_int (signedValue s))"
    if "signedDecimal s" "\<bar>signedValue s\<bar> \<le> 2 ^ 53" for s
  proof -
    from that(2) have "- (2 ^ 63) \<le> signedValue s" "signedValue s < 2 ^ 63" by simp_all
    from range[OF that(1) this] float64_of_int_exact[OF that(2)] show ?thesis by simp
  qed
  have 5: "constraintScore ''150'' = Finite 150"
  proof -
    have "signedDecimal ''150''"
      by (simp add: signedDecimal_def unsignedPart_def isDigit_def)
    moreover have "signedValue ''150'' = 150"
      by (simp add: signedValue_def unsignedPart_def decimalValue_def digitVal_def)
    ultimately show ?thesis using exact[of "''150''"] by simp
  qed
  have 8: "\<not> signedDecimal s \<and> s \<noteq> ''INFINITY'' \<and> s \<noteq> ''-INFINITY'' \<and>
          decimalValue (takeWhile isDigit (unsignedPart s)) \<le> maxUint64 \<longrightarrow>
            constraintScore s = Finite 0"
    by (simp add: constraintScore_def Atoi_malformed float64_of_int_exact)
  from range[of s] have 6: "signedDecimal s \<and> - (2 ^ 63) \<le> signedValue s \<and>
      signedValue s < 2 ^ 63 \<longrightarrow> constraintScore s = float64_of_int (signedValue s)"
    by simp
  from exact[of s] have 7: "signedDecimal s \<and> \<bar>signedValue s\<bar> \<le> 2 ^ 53 \<longrightarrow>
      constraintScore s = Finite (of_int (signedValue s))"
    by simp
  show ?thesis
    by (intro conjI 1 2 3 4 5 6 7 8)
qed

theorem recordConstraints_samples_witness:
  "pacemaker_NewCollector ''/usr/sbin/crm_mon'' ''/usr/sbin/cibadmin'' None =
     Inr examplePacemaker \<and>
     map (\<lambda>m. (Desc_name (Metric_desc m), Metric_val m, Metric_labelValues m))
       (fst (recordConstraints examplePacemaker example_CIB)) =
       [(''location_constraints'', PosInf, [''loc1'', ''node01'', ''rsc1'', ''started'']),
        (''location_constraints'', NegInf, [''loc2'', ''node02'', ''rsc1'', ''master'']),
        (''location_constraints'', Finite 150, [''loc3'', ''node01'', ''rsc2'', ''started'']),
        (''location_constraints'', Finite 0, [''loc4'', ''node02'', ''rsc2'', ''started''])] \<and>
     signedDecimal ''-42'' \<and> signedValue ''-42'' = - 42 \<and>
     constraintScore ''-42'' = Finite (- 42) \<and>
     \<not> signedDecimal ''high'' \<and> constraintScore ''high'' = Finite 0"
proof -
  note ok = examplePacemaker_ok
  have wf: "signedDecimal ''-42''"
    by (simp add: signedDecimal_def unsignedPart_def isDigit_def)
  have v: "signedValue ''-42'' = - 42"
    by (simp add: signedValue_def unsignedPart_def decimalValue_def digitVal_def)
  from recordConstraints_samples[OF ok, where s = "''-42''"] wf v
  have s1: "constraintScore ''-42'' = Finite (- 42)"
    by (simp add: float64_of_int_exact)
  have nwf: "\<not> signedDecimal ''high''"
    by (simp add: signedDecimal_def unsignedPart_def isDigit_def)
  have "decimalValue (takeWhile isDigit (unsignedPart ''high'')) \<le> maxUint64"
    by (simp add: unsignedPart_def isDigit_def decimalValue_def)
  with recordConstraints_samples[OF ok, where s = "''high''"] nwf
  have s2: "constraintScore ''high'' = Finite 0"
    by simp
  have lower: "ToLower ''Started'' = ''started''" "ToLower ''Master'' = ''master''"
    by (simp_all add: go_string_eval)
  from recordConstraints_samples[OF ok, where CIB = example_CIB and s = "''high''"] s2
  have l: "map (\<lambda>m. (Desc_name (Metric_desc m), Metric_val m, Metric_labelValues m))
       (fst (recordConstraints examplePacemaker example_CIB)) =
       [(''location_constraints'', PosInf, [''loc1'', ''node01'', ''rsc1'', ''started'']),
        (''location_constraints'', NegInf, [''loc2'', ''node02'', ''rsc1'', ''master'']),
        (''location_constraints'', Finite 150, [''loc3'', ''node01'', ''rsc2'', ''started'']),
        (''location_constraints'', Finite 0, [''loc4'', ''node02'', ''rsc2'', ''started''])]"
    by (simp add: example_CIB_def lower)
  show ?thesis
    by (intro conjI ok l wf v s1 nwf s2)
qed

subsection \<open>C6: node statuses\<close>

text \<open>
  C6. For every node of the resource-manager snapshot with \<open>k\<close> of its 9 status flags
  true, the loop over its status map sends exactly \<open>k\<close> samples of the metric
  \<^verbatim>\<open>nodes\<close>, whatever order the map is ranged in: each has the value 1 and the labels
  (node name, type, status), the status labels are the names of the true flags, each
  once; the type label is the node's type when that is member, ping or remote, and
  \<^verbatim>\<open>unknown\<close> for any other type string. These are all the \<^verbatim>\<open>nodes\<close> samples of the pass.
\<close>

theorem recordNodes_samples:
  assumes "pacemaker_NewCollector crmMonPath cibAdminPath chk = Inr c"
  shows "snd (recordNodeStatuses c rank node) = None \<and>
         length (fst (recordNodeStatuses c rank node)) =
           length (filter id [Node_Online node, Node_Standby node, Node_StandbyOnFail node,
             Node_Maintenance node, Node_Pending node, Node_Unclean node, Node_Shutdown node,
             Node_ExpectedUp node, Node_DC node]) \<and>
         (\<forall>m \<in> set (fst (recordNodeStatuses c rank node)).
            Desc_name (Metric_desc m) = ''nodes'' \<and>
            Metric_val m = Finite 1 \<and>
            length (Metric_labelValues m) = 3 \<and>
            Metric_labelValues m ! 0 = Node_Name node \<and>
            Metric_labelValues m ! 1 =
              (if Node_Type node \<in> {''member'', ''ping'', ''remote''} then Node_Type node
               else ''unknown'')) \<and>
         distinct (map (\<lambda>m. Metric_labelValues m ! 2) (fst (recordNodeStatuses c rank node))) \<and>
         mset (map (\<lambda>m. Metric_labelValues m ! 2) (fst (recordNodeStatuses c rank node))) =
           mset (map fst (filter snd
             [(''online'', Node_Online node), (''standby'', Node_Standby node),
              (''standby_onfail'', Node_StandbyOnFail node),
              (''maintenance'', Node_Maintenance node), (''pending'', Node_Pending node),
              (''unclean'', Node_Unclean node), (''shutdown'', Node_Shutdown node),
              (''expected_up'', Node_ExpectedUp node), (''dc'', Node_DC node)])) \<and>
         snd (recordNodes c order crmMon) = None \<and>
         filter (\<lambda>m. Desc_name (Metric_desc m) = ''nodes'') (fst (recordNodes c order crmMon)) =
           concat (map (\<lambda>(i, n). fst (recordNodeStatuses c (order (NodeStatuses i)) n))
             (enumerate 0 (Root_Nodes crmMon)))"
proof -
  let ?d = "pacemaker_DefaultCollector c"
  note eq = recordNodeStatuses_eq[OF assms]
  have nodes: "Desc_name (registered ?d ''nodes'') = ''nodes''"
    by (rule registered_name[OF pacemaker_registered(1)[OF assms]])
  have resources: "Desc_name (registered ?d ''resources'') = ''resources''"
    by (rule registered_name[OF pacemaker_registered(2)[OF assms]])
  have 1: "snd (recordNodeStatuses c rank node) = None"
    by (simp add: eq)
  have 2: "length (fst (recordNodeStatuses c rank node)) =
           length (filter id [Node_Online node, Node_Standby node, Node_StandbyOnFail node,
             Node_Maintenance node, Node_Pending node, Node_Unclean node, Node_Shutdown node,
             Node_ExpectedUp node, Node_DC node])"
    by (simp only: eq fst_conv length_map filter_range_map length_range_map
        filter_snd_nodeStatuses)
  have 3: "\<forall>m \<in> set (fst (recordNodeStatuses c rank node)).
            Desc_name (Metric_desc m) = ''nodes'' \<and>
            Metric_val m = Finite 1 \<and>
            length (Metric_labelValues m) = 3 \<and>
            Metric_labelValues m ! 0 = Node_Name node \<and>
            Metric_labelValues m ! 1 =
              (if Node_Type node \<in> {''member'', ''ping'', ''remote''} then Node_Type node
               else ''unknown'')"
    by (auto simp add: eq metricOf_def nodes nodeType_def)
  have labels: "map (\<lambda>m. Metric_labelValues m ! 2) (fst (recordNodeStatuses c rank node)) =
      map fst (filter snd (range_map rank (nodeStatuses node)))"
    by (simp add: eq metricOf_def comp_def)
  have 4: "distinct (map (\<lambda>m. Metric_labelValues m ! 2) (fst (recordNodeStatuses c rank node)))"
    unfolding labels by (rule distinct_true_keys[OF distinct_nodeStatuses])
  have "mset (map fst (filter snd (range_map rank (nodeStatuses node)))) =
        mset (map fst (filter snd (nodeStatuses node)))"
    by (simp add: filter_range_map)
  then have 5: "mset (map (\<lambda>m. Metric_labelValues m ! 2) (fst (recordNodeStatuses c rank node))) =
           mset (map fst (filter snd
             [(''online'', Node_Online node), (''standby'', Node_Standby node),
              (''standby_onfail'', Node_StandbyOnFail node),
              (''maintenance'', Node_Maintenance node), (''pending'', Node_Pending node),
              (''unclean'', Node_Unclean node), (''shutdown'', Node_Shutdown node),
              (''expected_up'', Node_ExpectedUp node), (''dc'', Node_DC node)]))"
    unfolding labels by (simp only: nodeStatuses_def)
  have res: "recordNodeResources c ranks n =
      (concat (map (\<lambda>(j, r). fst (recordResource c (ranks j) r (Node_Name n)))
         (enumerate 0 (Node_Resources n))), None)" for ranks n
    unfolding recordNodeResources_def Let_def
    by (rule forEach_pure) (auto simp add: recordResource_eq[OF assms])
  have all: "recordNodes c order crmMon =
      (concat (map (\<lambda>(i, n). fst (recordNodeStatuses c (order (NodeStatuses i)) n) @
           fst (recordNodeResources c (\<lambda>j. order (NodeResourceStatuses i j)) n))
         (enumerate 0 (Root_Nodes crmMon))), None)"
    unfolding recordNodes_def
    by (rule forEach_pure) (auto simp add: eq res)
  have 6: "snd (recordNodes c order crmMon) = None"
    by (simp add: all)
  have f1: "filter (\<lambda>m. Desc_name (Metric_desc m) = ''nodes'')
      (fst (recordNodeStatuses c rk n)) = fst (recordNodeStatuses c rk n)" for rk n
    by (simp add: eq metricOf_def nodes filter_map comp_def)
  have f2: "filter (\<lambda>m. Desc_name (Metric_desc m) = ''nodes'')
      (fst (recordNodeResources c ranks n)) = []" for ranks n
    by (auto simp add: res recordResource_eq[OF assms] metricOf_def resources filter_empty_conv)
  have 7: "filter (\<lambda>m. Desc_name (Metric_desc m) = ''nodes'') (fst (recordNodes c order crmMon)) =
           concat (map (\<lambda>(i, n). fst (recordNodeStatuses c (order (NodeStatuses i)) n))
             (enumerate 0 (Root_Nodes crmMon)))"
    by (simp add: all filter_concat comp_def case_prod_unfold f1 f2)
  show ?thesis
    by (intro conjI 1 2 3 4 5 6 7)
qed

theorem recordNodes_samples_witness:
  "pacemaker_NewCollector ''/usr/sbin/crm_mon'' ''/usr/sbin/cibadmin'' None =
     Inr examplePacemaker \<and>
     length (fst (recordNodeStatuses examplePacemaker (example_order (NodeStatuses 0)) example_node1)) = 3 \<and>
     mset (map (\<lambda>m. Metric_labelValues m ! 2)
       (fst (recordNodeStatuses examplePacemaker (example_order (NodeStatuses 0)) example_node1))) =
       mset [''online'', ''expected_up'', ''dc''] \<and>
     fst (recordNodeStatuses examplePacemaker (example_order (NodeStatuses 1)) example_node2) = [] \<and>
     length (filter (\<lambda>m. Desc_name (Metric_desc m) = ''nodes'')
       (fst (recordNodes examplePacemaker example_order example_crmMon))) = 3"
proof -
  note ok = examplePacemaker_ok
  note t1 = recordNodes_samples[OF ok, where rank = "example_order (NodeStatuses 0)"
      and node = example_node1 and order = example_order and crmMon = example_crmMon]
  note t2 = recordNodes_samples[OF ok, where rank = "example_order (NodeStatuses 1)"
      and node = example_node2 and order = example_order and crmMon = example_crmMon]
  from t1 have l1:
    "length (fst (recordNodeStatuses examplePacemaker (example_order (NodeStatuses 0)) example_node1)) = 3"
    by (simp add: example_node1_def)
  from t1 have m1: "mset (map (\<lambda>m. Metric_labelValues m ! 2)
       (fst (recordNodeStatuses examplePacemaker (example_order (NodeStatuses 0)) example_node1))) =
       mset [''online'', ''expected_up'', ''dc'']"
    by (simp add: example_node1_def)
  from t2 have l2: "fst (recordNodeStatuses examplePacemaker (example_order (NodeStatuses 1)) example_node2) = []"
    by (simp add: example_node2_def)
  from t1 have "filter (\<lambda>m. Desc_name (Metric_desc m) = ''nodes'')
       (fst (recordNodes examplePacemaker example_order example_crmMon)) =
     fst (recordNodeStatuses examplePacemaker (example_order (NodeStatuses 0)) example_node1) @
     fst (recordNodeStatuses examplePacemaker (example_order (NodeStatuses 1)) example_node2)"
    by (simp add: example_crmMon_def)
  with l1 l2 have "length (filter (\<lambda>m. Desc_name (Metric_desc m) = ''nodes'')
       (fst (recordNodes examplePacemaker example_order example_crmMon))) = 3"
    by simp
  then show ?thesis
    by (intro conjI ok l1 m1 l2)
qed

subsection \<open>C7: resource statuses\<close>

text \<open>
  C7. For every resource, node-owned or ungrouped (the node label of an ungrouped one
  is empty), and whatever order the status map is ranged in: if all 5 status flags are
  false, exactly one sample of the metric \<^verbatim>\<open>resources\<close> is sent and its status label is
  the empty string; if \<open>k > 0\<close> flags are true, exactly \<open>k\<close> samples are sent, one per
  true flag. Every sample has the value 1, the role label is the lower-cased role and
  the managed label is \<^verbatim>\<open>true\<close> or \<^verbatim>\<open>false\<close>.
\<close>

theorem recordResource_samples:
  assumes "pacemaker_NewCollector crmMonPath cibAdminPath chk = Inr c"
  shows "snd (recordResource c rank resource nodeName) = None \<and>
         (\<forall>m \<in> set (fst (recordResource c rank resource nodeName)).
            Desc_name (Metric_desc m) = ''resources'' \<and>
            Metric_val m = Finite 1 \<and>
            length (Metric_labelValues m) = 5 \<and>
            Metric_labelValues m ! 0 = nodeName \<and>
            Metric_labelValues m ! 1 = Resource_Id resource \<and>
            Metric_labelValues m ! 2 = ToLower (Resource_Role resource) \<and>
            Metric_labelValues m ! 3 =
              (if Resource_Managed resource then ''true'' else ''false'')) \<and>
         (\<not> (Resource_Active resource \<or> Resource_Orphaned resource \<or>
              Resource_Blocked resource \<or> Resource_Failed resource \<or>
              Resource_FailureIgnored resource) \<longrightarrow>
            map (\<lambda>m. Metric_labelValues m ! 4)
              (fst (recordResource c rank resource nodeName)) = [[]]) \<and>
         (Resource_Active resource \<or> Resource_Orphaned resource \<or>
          Resource_Blocked resource \<or> Resource_Failed resource \<or>
          Resource_FailureIgnored resource \<longrightarrow>
            length (fst (recordResource c rank resource nodeName)) =
              length (filter id [Resource_Active resource, Resource_Orphaned resource,
                Resource_Blocked resource, Resource_Failed resource,
                Resource_FailureIgnored resource]) \<and>
            mset (map (\<lambda>m. Metric_labelValues m ! 4)
              (fst (recordResource c rank resource nodeName))) =
              mset (map fst (filter snd
                [(''active'', Resource_Active resource),
                 (''orphaned'', Resource_Orphaned resource),
                 (''blocked'', Resource_Blocked resource),
                 (''failed'', Resource_Failed resource),
                 (''failure_ignored'', Resource_FailureIgnored resource)]))) \<and>
         distinct (map (\<lambda>m. Metric_labelValues m ! 4)
           (fst (recordResource c rank resource nodeName))) \<and>
         recordNodeResources c ranks node =
           (concat (map (\<lambda>(j, r). fst (recordResource c (ranks j) r (Node_Name node)))
              (enumerate 0 (Node_Resources node))), None) \<and>
         recordUngroupedResources c order crmMon =
           (concat (map (\<lambda>(j, r). fst (recordResource c (order (UngroupedResourceStatuses j)) r []))
              (enumerate 0 (Root_Resources crmMon))), None)"
proof -
  let ?d = "pacemaker_DefaultCollector c"
  let ?out = "fst (recordResource c rank resource nodeName)"
  let ?any = "Resource_Active resource \<or> Resource_Orphaned resource \<or>
      Resource_Blocked resource \<or> Resource_Failed resource \<or> Resource_FailureIgnored resource"
  note eq = recordResource_eq[OF assms]
  have resources: "Desc_name (registered ?d ''resources'') = ''resources''"
    by (rule registered_name[OF pacemaker_registered(2)[OF assms]])
  have 1: "snd (recordResource c rank resource nodeName) = None"
    by (simp add: eq)
  have 2: "\<forall>m \<in> set ?out.
            Desc_name (Metric_desc m) = ''resources'' \<and>
            Metric_val m = Finite 1 \<and>
            length (Metric_labelValues m) = 5 \<and>
            Metric_labelValues m ! 0 = nodeName \<and>
            Metric_labelValues m ! 1 = Resource_Id resource \<and>
            Metric_labelValues m ! 2 = ToLower (Resource_Role resource) \<and>
            Metric_labelValues m ! 3 =
              (if Resource_Managed resource then ''true'' else ''false'')"
    by (auto simp add: eq metricOf_def resources FormatBool_def)
  have labels: "map (\<lambda>m. Metric_labelValues m ! 4) ?out =
      map fst (range_map rank (filter snd (resourceStatuses resource)))"
    by (simp add: eq metricOf_def comp_def filter_range_map)
  have none: "filter snd (resourceStatuses resource) = [([], True)]" if "\<not> ?any"
    using that by (simp add: resourceStatuses_def)
  have some: "filter snd (resourceStatuses resource) =
      filter snd [(''active'', Resource_Active resource),
                 (''orphaned'', Resource_Orphaned resource),
                 (''blocked'', Resource_Blocked resource),
                 (''failed'', Resource_Failed resource),
                 (''failure_ignored'', Resource_FailureIgnored resource)]" if "?any"
    using that by (simp add: resourceStatuses_def)
  have 3: "\<not> ?any \<longrightarrow> map (\<lambda>m. Metric_labelValues m ! 4) ?out = [[]]"
    by (simp add: labels none range_map_def)
  have len: "length ?out = length (map (\<lambda>m. Metric_labelValues m ! 4) ?out)"
    by simp
  have 4: "?any \<longrightarrow>
            length ?out =
              length (filter id [Resource_Active resource, Resource_Orphaned resource,
                Resource_Blocked resource, Resource_Failed resource,
                Resource_FailureIgnored resource]) \<and>
            mset (map (\<lambda>m. Metric_labelValues m ! 4) ?out) =
              mset (map fst (filter snd
                [(''active'', Resource_Active resource),
                 (''orphaned'', Resource_Orphaned resource),
                 (''blocked'', Resource_Blocked resource),
                 (''failed'', Resource_Failed resource),
                 (''failure_ignored'', Resource_FailureIgnored resource)]))"
  proof
    assume a: "?any"
    have "length ?out = length (filter snd (resourceStatuses resource))"
      unfolding len labels by simp
    also have "\<dots> = length (filter id [Resource_Active resource, Resource_Orphaned resource,
                Resource_Blocked resource, Resource_Failed resource,
                Resource_FailureIgnored resource])"
      unfolding some[OF a] by simp
    finally have l: "length ?out = length (filter id [Resource_Active resource,
        Resource_Orphaned resource, Resource_Blocked resource, Resource_Failed resource,
        Resource_FailureIgnored resource])" .
    have "mset (map (\<lambda>m. Metric_labelValues m ! 4) ?out) =
        mset (map fst (filter snd (resourceStatuses resource)))"
      unfolding labels by simp
    with l show "length ?out =
              length (filter id [Resource_Active resource, Resource_Orphaned resource,
                Resource_Blocked resource, Resource_Failed resource,
                Resource_FailureIgnored resource]) \<and>
            mset (map (\<lambda>m. Metric_labelValues m ! 4) ?out) =
              mset (map fst (filter snd
                [(''active'', Resource_Active resource),
                 (''orphaned'', Resource_Orphaned resource),
                 (''blocked'', Resource_Blocked resource),
                 (''failed'', Resource_Failed resource),
                 (''failure_ignored'', Resource_FailureIgnored resource)]))"
      unfolding some[OF a] by simp
  qed
  have 5: "distinct (map (\<lambda>m. Metric_labelValues m ! 4) ?out)"
    unfolding labels filter_range_map[symmetric]
    by (rule distinct_true_keys[OF distinct_resourceStatuses])
  have 6: "recordNodeResources c ranks node =
           (concat (map (\<lambda>(j, r). fst (recordResource c (ranks j) r (Node_Name node)))
              (enumerate 0 (Node_Resources node))), None)"
    unfolding recordNodeResources_def Let_def
    by (rule forEach_pure) (auto simp add: recordResource_eq[OF assms])
  have 7: "recordUngroupedResources c order crmMon =
           (concat (map (\<lambda>(j, r). fst (recordResource c (order (UngroupedResourceStatuses j)) r []))
              (enumerate 0 (Root_Resources crmMon))), None)"
    unfolding recordUngroupedResources_def
    by (rule forEach_pure) (auto simp add: recordResource_eq[OF assms])
  show ?thesis
    by (intro conjI 1 2 3 4 5 6 7)
qed

theorem recordResource_samples_witness:
  "pacemaker_NewCollector ''/usr/sbin/crm_mon'' ''/usr/sbin/cibadmin'' None =
     Inr examplePacemaker \<and>
     map (\<lambda>m. Metric_labelValues m ! 4)
       (fst (recordResource examplePacemaker (example_order (UngroupedResourceStatuses 0)) example_rsc2 [])) =
       [[]] \<and>
     length (fst (recordResource examplePacemaker (example_order (NodeResourceStatuses 0 0)) example_rsc1
       ''node01'')) = 2 \<and>
     mset (map (\<lambda>m. Metric_labelValues m ! 4)
       (fst (recordResource examplePacemaker (example_order (NodeResourceStatuses 0 0)) example_rsc1
          ''node01''))) = mset [''active'', ''failed''] \<and>
     length (fst (recordUngroupedResources examplePacemaker example_order example_crmMon)) = 1"
proof -
  note ok = examplePacemaker_ok
  note t1 = recordResource_samples[OF ok,
      where rank = "example_order (UngroupedResourceStatuses 0)" and resource = example_rsc2
        and nodeName = "[]" and order = example_order and crmMon = example_crmMon]
  note t2 = recordResource_samples[OF ok,
      where rank = "example_order (NodeResourceStatuses 0 0)" and resource = example_rsc1
        and nodeName = "''node01''"]
  from t1 have s1: "map (\<lambda>m. Metric_labelValues m ! 4)
       (fst (recordResource examplePacemaker (example_order (UngroupedResourceStatuses 0)) example_rsc2 [])) =
       [[]]"
    by (simp add: example_rsc2_def)
  from t2 have s2: "length (fst (recordResource examplePacemaker (example_order (NodeResourceStatuses 0 0))
       example_rsc1 ''node01'')) = 2"
    by (simp add: example_rsc1_def)
  from t2 have s3: "mset (map (\<lambda>m. Metric_labelValues m ! 4)
       (fst (recordResource examplePacemaker (example_order (NodeResourceStatuses 0 0)) example_rsc1
          ''node01''))) = mset [''active'', ''failed'']"
    by (simp add: example_rsc1_def)
  from t1 have u: "fst (recordUngroupedResources examplePacemaker example_order example_crmMon) =
      fst (recordResource examplePacemaker (example_order (UngroupedResourceStatuses 0)) example_rsc2 [])"
    by (simp add: example_crmMon_def)
  have "length (map (\<lambda>m. Metric_labelValues m ! 4)
       (fst (recordResource examplePacemaker (example_order (UngroupedResourceStatuses 0)) example_rsc2 []))) = 1"
    unfolding s1 by simp
  then have s4: "length (fst (recordUngroupedResources examplePacemaker example_order example_crmMon)) = 1"
    by (simp add: u)
  show ?thesis
    by (intro conjI ok s1 s2 s3 s4)
qed

subsection \<open>C8: split-brain marker files\<close>




subsection \<open>C9: label values and label names\<close>

text \<open>
  C9. Every sample either collector sends, on any snapshot, carries as many label
  values as the descriptor registered for its metric has label names: 3 for nodes, 5
  for the Pacemaker resources, 0 for stonith_enabled and config_last_change, 2 for
  fail_count, migration_threshold, split_brain and the per-device DRBD gauges, 4 for
  location_constraints and the DRBD resources, 5 for connections, 3 for the
  connections gauges. No call of the collectors trips the arity validation: the pass of
  the Pacemaker collector never panics, and the only panic of the DRBD collector is the
  index panic of the split-brain projection.
\<close>

theorem Collect_label_arity:
  assumes p: "pacemaker_NewCollector crmMonPath cibAdminPath chk = Inr pc"
    and d: "drbd_NewCollector setupPath splitBrainPath chk' = Inr dc"
  shows "snd (pacemaker_Collect pc order parseANSIC crmMonParse cibParse) = None \<and>
         (\<forall>m \<in> set (fst (pacemaker_Collect pc order parseANSIC crmMonParse cibParse)).
            descriptors (pacemaker_DefaultCollector pc) (Desc_name (Metric_desc m)) =
              Some (Metric_desc m) \<and>
            length (Metric_labelValues m) = length (Desc_variableLabels (Metric_desc m)) \<and>
            (Desc_name (Metric_desc m), length (Metric_labelValues m)) \<in>
              set [(''nodes'', 3), (''resources'', 5), (''stonith_enabled'', 0),
                   (''fail_count'', 2), (''migration_threshold'', 2),
                   (''config_last_change'', 0), (''location_constraints'', 4)]) \<and>
         (snd (drbd_Collect dc unmarshal files statusOutput) = None \<or>
          snd (drbd_Collect dc unmarshal files statusOutput) = Some IndexOutOfRange) \<and>
         (\<forall>m \<in> set (fst (drbd_Collect dc unmarshal files statusOutput)).
            descriptors (drbd_DefaultCollector dc) (Desc_name (Metric_desc m)) =
              Some (Metric_desc m) \<and>
            length (Metric_labelValues m) = length (Desc_variableLabels (Metric_desc m)) \<and>
            (Desc_name (Metric_desc m), length (Metric_labelValues m)) \<in>
              set [(''resources'', 4), (''written'', 2), (''read'', 2), (''al_writes'', 2),
                   (''bm_writes'', 2), (''upper_pending'', 2), (''lower_pending'', 2),
                   (''quorum'', 2), (''connections'', 5), (''connections_sync'', 3),
                   (''connections_received'', 3), (''connections_sent'', 3),
                   (''connections_pending'', 3), (''connections_unacked'', 3),
                   (''split_brain'', 2)])"
proof -
  define Qp :: "panic option \<Rightarrow> bool" where "Qp = (\<lambda>x. x = None)"
  define Qd :: "panic option \<Rightarrow> bool"
    where "Qd = (\<lambda>x. x = None \<or> x = Some IndexOutOfRange)"
  define Pp :: "Metric \<Rightarrow> bool" where "Pp = (\<lambda>m.
      descriptors (pacemaker_DefaultCollector pc) (Desc_name (Metric_desc m)) =
        Some (Metric_desc m) \<and>
      length (Metric_labelValues m) = length (Desc_variableLabels (Metric_desc m)) \<and>
      (Desc_name (Metric_desc m), length (Metric_labelValues m)) \<in>
        set [(''nodes'', 3::nat), (''resources'', 5), (''stonith_enabled'', 0),
             (''fail_count'', 2), (''migration_threshold'', 2),
             (''config_last_change'', 0), (''location_constraints'', 4)])"
  define Pd :: "Metric \<Rightarrow> bool" where "Pd = (\<lambda>m.
      descriptors (drbd_DefaultCollector dc) (Desc_name (Metric_desc m)) =
        Some (Metric_desc m) \<and>
      length (Metric_labelValues m) = length (Desc_variableLabels (Metric_desc m)) \<and>
      (Desc_name (Metric_desc m), length (Metric_labelValues m)) \<in>
        set [(''resources'', 4::nat), (''written'', 2), (''read'', 2), (''al_writes'', 2),
             (''bm_writes'', 2), (''upper_pending'', 2), (''lower_pending'', 2),
             (''quorum'', 2), (''connections'', 5), (''connections_sync'', 3),
             (''connections_received'', 3), (''connections_sent'', 3),
             (''connections_pending'', 3), (''connections_unacked'', 3),
             (''split_brain'', 2)])"
  note pf = pacemaker_names[OF p] pacemaker_labels[OF p] pacemaker_lookups[OF p]
  note df = drbd_names[OF d] drbd_labels[OF d] drbd_lookups[OF d]
  have pe: "emits Qp Pp (pacemaker_Collect pc order parseANSIC crmMonParse cibParse)"
  proof (rule pacemaker_Collect_emits[OF p])
    show "Qp None" by (simp add: Qp_def)
    show "Pp (metricOf (pacemaker_DefaultCollector pc) ''stonith_enabled'' GaugeValue v [])"
      for v by (simp add: Pp_def metricOf_def pf)
    show "Pp (metricOf (pacemaker_DefaultCollector pc) ''nodes'' GaugeValue (Finite 1)
        [a, b, st])" for a b st
      by (simp add: Pp_def metricOf_def pf)
    show "Pp (metricOf (pacemaker_DefaultCollector pc) ''resources'' GaugeValue (Finite 1)
        [a, b, ToLower role, m, st])" for a b role m st
      by (simp add: Pp_def metricOf_def pf)
    show "Pp (metricOf (pacemaker_DefaultCollector pc) ''fail_count'' GaugeValue v [a, b])"
      for v a b by (simp add: Pp_def metricOf_def pf)
    show "Pp (metricOf (pacemaker_DefaultCollector pc) ''migration_threshold'' GaugeValue v
        [a, b])" for v a b
      by (simp add: Pp_def metricOf_def pf)
    show "Pp (metricOf (pacemaker_DefaultCollector pc) ''config_last_change'' CounterValue v
        [])" for v
      by (simp add: Pp_def metricOf_def pf)
    show "Pp (metricOf (pacemaker_DefaultCollector pc) ''location_constraints'' GaugeValue v
        [a, b, e, ToLower role])" for v a b e role
      by (simp add: Pp_def metricOf_def pf)
  qed
  have de: "emits Qd Pd (drbd_Collect dc unmarshal files statusOutput)"
  proof (rule drbd_Collect_emits[OF d])
    show "Qd None" "Qd (Some IndexOutOfRange)" by (simp_all add: Qd_def)
    show "Pd (metricOf (drbd_DefaultCollector dc) ''split_brain'' GaugeValue (Finite 1)
        [res, vol])" for res vol
      by (simp add: Pd_def metricOf_def df)
    show "list_all Pd (fst (recordDevice dc resource device))" for resource device
      by (simp add: recordDevice_eq[OF d] Pd_def metricOf_def df)
    show "list_all Pd (fst (recordPeerDevice dc resource conn peerDev))"
      for resource conn peerDev
      by (simp add: recordPeerDevice_eq[OF d] Pd_def metricOf_def df)
  qed
  have 1: "snd (pacemaker_Collect pc order parseANSIC crmMonParse cibParse) = None"
    using emits_snd[OF pe] by (simp add: Qp_def)
  have 2: "\<forall>m \<in> set (fst (pacemaker_Collect pc order parseANSIC crmMonParse cibParse)).
            descriptors (pacemaker_DefaultCollector pc) (Desc_name (Metric_desc m)) =
              Some (Metric_desc m) \<and>
            length (Metric_labelValues m) = length (Desc_variableLabels (Metric_desc m)) \<and>
            (Desc_name (Metric_desc m), length (Metric_labelValues m)) \<in>
              set [(''nodes'', 3), (''resources'', 5), (''stonith_enabled'', 0),
                   (''fail_count'', 2), (''migration_threshold'', 2),
                   (''config_last_change'', 0), (''location_constraints'', 4)]"
  proof
    fix m
    assume "m \<in> set (fst (pacemaker_Collect pc order parseANSIC crmMonParse cibParse))"
    from emits_set[OF pe this] show "descriptors (pacemaker_DefaultCollector pc)
        (Desc_name (Metric_desc m)) = Some (Metric_desc m) \<and>
      length (Metric_labelValues m) = length (Desc_variableLabels (Metric_desc m)) \<and>
      (Desc_name (Metric_desc m), length (Metric_labelValues m)) \<in>
        set [(''nodes'', 3), (''resources'', 5), (''stonith_enabled'', 0),
             (''fail_count'', 2), (''migration_threshold'', 2),
             (''config_last_change'', 0), (''location_constraints'', 4)]"
      unfolding Pp_def .
  qed
  have 3: "snd (drbd_Collect dc unmarshal files statusOutput) = None \<or>
          snd (drbd_Collect dc unmarshal files statusOutput) = Some IndexOutOfRange"
    using emits_snd[OF de] unfolding Qd_def .
  have 4: "\<forall>m \<in> set (fst (drbd_Collect dc unmarshal files statusOutput)).
            descriptors (drbd_DefaultCollector dc) (Desc_name (Metric_desc m)) =
              Some (Metric_desc m) \<and>
            length (Metric_labelValues m) = length (Desc_variableLabels (Metric_desc m)) \<and>
            (Desc_name (Metric_desc m), length (Metric_labelValues m)) \<in>
              set [(''resources'', 4), (''written'', 2), (''read'', 2), (''al_writes'', 2),
                   (''bm_writes'', 2), (''upper_pending'', 2), (''lower_pending'', 2),
                   (''quorum'', 2), (''connections'', 5), (''connections_sync'', 3),
                   (''connections_received'', 3), (''connections_sent'', 3),
                   (''connections_pending'', 3), (''connections_unacked'', 3),
                   (''split_brain'', 2)]"
  proof
    fix m
    assume "m \<in> set (fst (drbd_Collect dc unmarshal files statusOutput))"
    from emits_set[OF de this] show "descriptors (drbd_DefaultCollector dc)
        (Desc_name (Metric_desc m)) = Some (Metric_desc m) \<and>
      length (Metric_labelValues m) = length (Desc_variableLabels (Metric_desc m)) \<and>
      (Desc_name (Metric_desc m), length (Metric_labelValues m)) \<in>
        set [(''resources'', 4), (''written'', 2), (''read'', 2), (''al_writes'', 2),
             (''bm_writes'', 2), (''upper_pending'', 2), (''lower_pending'', 2),
             (''quorum'', 2), (''connections'', 5), (''connections_sync'', 3),
             (''connections_received'', 3), (''connections_sent'', 3),
             (''connections_pending'', 3), (''connections_unacked'', 3),
             (''split_brain'', 2)]"
      unfolding Pd_def .
  qed
  show ?thesis
    by (intro conjI 1 2 3 4)
qed

theorem Collect_label_arity_witness:
  "pacemaker_NewCollector ''/usr/sbin/crm_mon'' ''/usr/sbin/cibadmin'' None =
     Inr examplePacemaker \<and>
   drbd_NewCollector ''/sbin/drbdsetup'' ''/var/run/drbd/splitbrain'' None = Inr exampleDrbd \<and>
   Desc_name (Metric_desc (hd (fst (pacemaker_Collect examplePacemaker example_order
     example_parseANSIC (Inr example_crmMon) (Inr example_CIB))))) = ''stonith_enabled'' \<and>
   length (Desc_variableLabels (Metric_desc (hd (fst (pacemaker_Collect examplePacemaker
     example_order example_parseANSIC (Inr example_crmMon) (Inr example_CIB)))))) = 0 \<and>
   Desc_name (Metric_desc (hd (fst (drbd_Collect exampleDrbd example_unmarshal
     [''drbd-split-brain-detected-myres-0''] (Inl ''exit status 1''))))) = ''split_brain'' \<and>
   length (Desc_variableLabels (Metric_desc (hd (fst (drbd_Collect exampleDrbd
     example_unmarshal [''drbd-split-brain-detected-myres-0'']
     (Inl ''exit status 1'')))))) = 2"
proof -
  note p = examplePacemaker_ok
  note d = exampleDrbd_ok
  note t = Collect_label_arity[OF p d, where order = example_order
      and parseANSIC = example_parseANSIC and crmMonParse = "Inr example_crmMon"
      and cibParse = "Inr example_CIB" and unmarshal = example_unmarshal
      and files = "[''drbd-split-brain-detected-myres-0'']"
      and statusOutput = "Inl ''exit status 1''"]
  let ?ps = "fst (pacemaker_Collect examplePacemaker example_order example_parseANSIC
      (Inr example_crmMon) (Inr example_CIB))"
  let ?ds = "fst (drbd_Collect exampleDrbd example_unmarshal
      [''drbd-split-brain-detected-myres-0''] (Inl ''exit status 1''))"
  from pacemaker_Collect_first[OF p, of example_order example_parseANSIC example_crmMon
      example_CIB]
  obtain rest where ps: "?ps =
      metricOf (pacemaker_DefaultCollector examplePacemaker) ''stonith_enabled'' GaugeValue
        (if Summary_ClusterOptions_StonithEnabled example_crmMon then Finite 1 else Finite 0)
        [] # rest"
    by (elim exE)
  then have "hd ?ps \<in> set ?ps" by simp
  with t have "length (Metric_labelValues (hd ?ps)) =
      length (Desc_variableLabels (Metric_desc (hd ?ps)))"
    by (elim conjE) (drule (1) bspec, elim conjE)
  then have 1: "length (Desc_variableLabels (Metric_desc (hd ?ps))) = 0"
    unfolding ps by (simp add: metricOf_def)
  have 2: "Desc_name (Metric_desc (hd ?ps)) = ''stonith_enabled''"
    unfolding ps by (simp add: metricOf_def pacemaker_names(3)[OF p])
  have "count_list ''myres-0'' CHR ''-'' < 4"
    by simp
  from recordDrbdSplitBrainMetric_single[OF d this]
  have ds: "?ds = [metricOf (drbd_DefaultCollector exampleDrbd) ''split_brain'' GaugeValue
      (Finite 1) [''myres'', ''0'']]"
    by (simp add: drbd_Collect_failed(1) Split_def)
  then have "hd ?ds \<in> set ?ds" by simp
  with t have "length (Metric_labelValues (hd ?ds)) =
      length (Desc_variableLabels (Metric_desc (hd ?ds)))"
    by (elim conjE) (drule (1) bspec, elim conjE)
  then have 3: "length (Desc_variableLabels (Metric_desc (hd ?ds))) = 2"
    unfolding ds by (simp add: metricOf_def)
  have 4: "Desc_name (Metric_desc (hd ?ds)) = ''split_brain''"
    unfolding ds by (simp add: metricOf_def drbd_names(15)[OF d])
  show ?thesis
    by (intro conjI p d 2 1 4 3)
qed

subsection \<open>C10: a failed configuration-database parse silences the Pacemaker pass\<close>

text \<open>
  C10. If the resource-manager (crm_mon) snapshot parses but the configuration-database
  (cibadmin) snapshot fails to parse, the Pacemaker collector sends no metric at all on
  that scrape: the metrics that need only the crm_mon snapshot (stonith_enabled, nodes,
  resources, fail_count, migration_threshold, config_last_change) are suppressed with
  the constraint metrics, and the pass ends without a panic.
\<close>

theorem pacemaker_Collect_cib_failure:
  "pacemaker_Collect c order parseANSIC (Inr crmMon) (Inl err) = ([], None)"
  by (simp add: pacemaker_Collect_def skip_def)

end
